theory Spec2Isabelle
  imports Main
begin

section \<open>Go strings, runes and errors\<close>

text \<open>
  A Go \<^verbatim>\<open>string\<close> is a sequence of bytes, and so is an Isabelle \<^typ>\<open>string\<close>
  (a list of 8-bit characters): \<^term>\<open>length\<close> is Go's \<^verbatim>\<open>len\<close>, \<^term>\<open>take\<close> is
  the slice \<^verbatim>\<open>s[:n]\<close>. The program's texts are Russian; they are written below as
  their UTF-8 bytes. A \<^verbatim>\<open>rune\<close> is a code point, an \<^verbatim>\<open>int32\<close>; the program only
  compares runes and subtracts \<^verbatim>\<open>'1'\<close> from a rune that is at least \<^verbatim>\<open>'1'\<close>, so no
  arithmetic on runes can wrap.
\<close>

type_synonym rune = int

text \<open>
  The conversion \<^verbatim>\<open>string(r)\<close> of one rune: its UTF-8 encoding; a surrogate half and a
  value outside the Unicode range become U+FFFD.
\<close>

definition utf8_rune :: "rune \<Rightarrow> string" where
  "utf8_rune r =
    (if 0 \<le> r \<and> r < 0x80 then [char_of r]
     else if 0x80 \<le> r \<and> r < 0x800 then
       [char_of (0xC0 + r div 0x40), char_of (0x80 + r mod 0x40)]
     else if (0x800 \<le> r \<and> r < 0xD800) \<or> (0xE000 \<le> r \<and> r < 0x10000) then
       [char_of (0xE0 + r div 0x1000), char_of (0x80 + (r div 0x40) mod 0x40),
        char_of (0x80 + r mod 0x40)]
     else if 0x10000 \<le> r \<and> r \<le> 0x10FFFF then
       [char_of (0xF0 + r div 0x40000), char_of (0x80 + (r div 0x1000) mod 0x40),
        char_of (0x80 + (r div 0x40) mod 0x40), char_of (0x80 + r mod 0x40)]
     else [CHR 0xEF, CHR 0xBF, CHR 0xBD])"

text \<open>The conversion \<^verbatim>\<open>string(msg.Runes)\<close> of a slice of runes.\<close>

definition string_of_runes :: "rune list \<Rightarrow> string" where
  "string_of_runes rs = concat (map utf8_rune rs)"

text \<open>
  How many bytes the first rune of a string takes when Go ranges over the string
  (\<^verbatim>\<open>utf8.DecodeRuneInString\<close>): a byte that starts no well-formed encoding is a rune
  of width 1.
\<close>

definition byte_in :: "char \<Rightarrow> nat \<Rightarrow> nat \<Rightarrow> bool" where
  "byte_in c lo hi = (lo \<le> of_char c \<and> (of_char c :: nat) \<le> hi)"

fun rune_width :: "string \<Rightarrow> nat" where
  "rune_width [] = 0"
| "rune_width (c # cs) =
    (let b = (of_char c :: nat) in
     if b < 0xC2 then 1
     else if b \<le> 0xDF then
       (case cs of
          c1 # _ \<Rightarrow> if byte_in c1 0x80 0xBF then 2 else 1
        | _ \<Rightarrow> 1)
     else if b \<le> 0xEF then
       (case cs of
          c1 # c2 # _ \<Rightarrow>
            if byte_in c1 (if b = 0xE0 then 0xA0 else 0x80) (if b = 0xED then 0x9F else 0xBF)
               \<and> byte_in c2 0x80 0xBF
            then 3 else 1
        | _ \<Rightarrow> 1)
     else if b \<le> 0xF4 then
       (case cs of
          c1 # c2 # c3 # _ \<Rightarrow>
            if byte_in c1 (if b = 0xF0 then 0x90 else 0x80) (if b = 0xF4 then 0x8F else 0xBF)
               \<and> byte_in c2 0x80 0xBF \<and> byte_in c3 0x80 0xBF
            then 4 else 1
        | _ \<Rightarrow> 1)
     else 1)"

text \<open>
  The verb \<^verbatim>\<open>%.7s\<close> of \<^verbatim>\<open>fmt.Sprintf\<close> keeps the first seven runes of its string
  argument (\<^verbatim>\<open>truncateString\<close> with the precision \<open>n\<close>).
\<close>

primrec truncateString :: "nat \<Rightarrow> string \<Rightarrow> string" where
  "truncateString 0 s = []"
| "truncateString (Suc n) s =
    (if s = [] then []
     else take (rune_width s) s @ truncateString n (drop (rune_width s) s))"

text \<open>
  Errors. The engine's sentinel \<^verbatim>\<open>git.NoErrAlreadyUpToDate\<close> is compared by identity, so
  it is a constructor of its own; any other error of the engine or the operating system
  is an \<open>ErrorString\<close> with its text; \<open>Wrapped p e\<close> is
  \<^verbatim>\<open>fmt.Errorf("%s: %w", p, e)\<close>.
\<close>

datatype error =
    NoErrAlreadyUpToDate
  | ErrorString string
  | Wrapped string error

text \<open>The method \<^verbatim>\<open>Error()\<close>, which \<^verbatim>\<open>%v\<close> prints.\<close>

fun Error :: "error \<Rightarrow> string" where
  "Error NoErrAlreadyUpToDate = ''already up-to-date''"
| "Error (ErrorString s) = s"
| "Error (Wrapped p e) = p @ '': '' @ Error e"

section \<open>The data model (internal/models/models.go)\<close>

record GitStatus =
  Branch :: string
  Staged :: "string list"
  Modified :: "string list"
  Untracked :: "string list"
  Ahead :: int
  Behind :: int
  IsClean :: bool
  LastCommit :: string

text \<open>A \<^verbatim>\<open>time.Time\<close> is kept as a number (an instant); the program only copies it.\<close>

type_synonym time = int

record Checkpoint =
  Hash :: string
  Message :: string
  Author :: string
  Date :: time
  IsCurrent :: bool

record SyncMsg =
  Success :: bool
  Message :: string
  Pulled :: bool
  Pushed :: bool
  Conflict :: bool

text \<open>
  The keys of the terminal library (\<^verbatim>\<open>tea.KeyMsg\<close>). The program reads three things of
  a key: its \<^verbatim>\<open>Type\<close>, its \<^verbatim>\<open>Runes\<close> and the text \<^verbatim>\<open>msg.String()\<close> the library
  renders for it (\<^verbatim>\<open>"ctrl+c"\<close>, \<^verbatim>\<open>"up"\<close>, \<^verbatim>\<open>"q"\<close>, ...). The library is not part of
  the repository, so the rendered text is a field of the key here and nothing is assumed
  on how it follows from the other two.
\<close>

datatype KeyType =
    KeyRunes | KeyEscape | KeyEnter | KeyBackspace
  | KeyCtrlC | KeyUp | KeyDown | KeySpace | KeyTab

record KeyMsg =
  Type :: KeyType
  Runes :: "rune list"
  String :: string

text \<open>The messages \<^verbatim>\<open>Update\<close> receives; \<open>OtherMsg\<close> is any message it has no case for.\<close>

datatype Msg =
    GitStatusMsg GitStatus
  | ErrMsg error
  | StatusMsg string
  | GitInitializedMsg
  | CheckpointCreatedMsg bool string
  | CheckpointsLoadedMsg "Checkpoint list"
  | RollbackMsg bool string
  | DescriptionModeMsg "string list"
  | GitNotInitializedMsg string
  | SyncMsg SyncMsg
  | KeyMsg KeyMsg
  | OtherMsg

text \<open>
  The Application State. The field \<^verbatim>\<open>Repo\<close> is never read or written and is left out.
  The two selection indices are Go \<^verbatim>\<open>int\<close>s; they are only ever moved by one, below
  the length of a list, or set to a constant, so they are integers here and cannot wrap.
\<close>

text \<open>
  The error the state holds: \<open>Returned err\<close> is the error of an \<open>ErrMsg\<close>, as the
  operation returned it; \<open>Errorf format\<close> is the error \<^verbatim>\<open>fmt.Errorf(format)\<close> makes of a
  format text and no operands. Its text is the format as \<^verbatim>\<open>fmt\<close> renders it, which rewrites
  every \<^verbatim>\<open>%\<close> sequence; no operation modelled here reads that text, so the format is
  kept as it is and nothing is said of the rendered text.
\<close>

datatype ModelError =
    Returned error
  | Errorf string

record Model =
  Status :: "GitStatus option"
  Err :: "ModelError option"
  Selected :: int
  Quitting :: bool
  Checkpoints :: "Checkpoint list"
  HistoryMode :: bool
  HistorySelected :: int
  Loading :: bool
  LoadingText :: string
  SyncMessage :: string
  ShowSyncMessage :: bool
  GitNotInitialized :: bool
  DescriptionMode :: bool
  DescriptionInput :: string
  Suggestions :: "string list"

subsection \<open>Text constants\<close>

text \<open>\<^verbatim>\<open>MenuInitGit\<close> (models.go): start a vibe session, as UTF-8 bytes.\<close>

definition MenuInitGit :: string where
  "MenuInitGit =
    [CHR 0xD0, CHR 0x9D, CHR 0xD0, CHR 0xB0, CHR 0xD1, CHR 0x87, CHR 0xD0, CHR 0xB0, CHR 0xD1,
     CHR 0x82, CHR 0xD1, CHR 0x8C, CHR '' '', CHR ''V'', CHR ''i'', CHR ''b'', CHR ''e'',
     CHR ''-'', CHR 0xD1, CHR 0x81, CHR 0xD0, CHR 0xB5, CHR 0xD1, CHR 0x81, CHR 0xD1, CHR 0x81,
     CHR 0xD0, CHR 0xB8, CHR 0xD1, CHR 0x8E]"

text \<open>\<^verbatim>\<open>MenuCreateCheckpoint\<close> (models.go): save the vibe, as UTF-8 bytes.\<close>

definition MenuCreateCheckpoint :: string where
  "MenuCreateCheckpoint =
    [CHR 0xD0, CHR 0x97, CHR 0xD0, CHR 0xB0, CHR 0xD1, CHR 0x81, CHR 0xD0, CHR 0xB5, CHR 0xD0,
     CHR 0xB9, CHR 0xD0, CHR 0xB2, CHR 0xD0, CHR 0xB8, CHR 0xD1, CHR 0x82, CHR 0xD1, CHR 0x8C,
     CHR '' '', CHR 0xD0, CHR 0xB2, CHR 0xD0, CHR 0xB0, CHR 0xD0, CHR 0xB9, CHR 0xD0, CHR 0xB1,
     CHR '' '', CHR ''('', CHR ''S'', CHR ''a'', CHR ''v'', CHR ''e'', CHR '' '', CHR ''V'',
     CHR ''i'', CHR ''b'', CHR ''e'', CHR '')'']"

text \<open>\<^verbatim>\<open>MenuViewHistory\<close> (models.go): flow history, as UTF-8 bytes.\<close>

definition MenuViewHistory :: string where
  "MenuViewHistory =
    [CHR 0xD0, CHR 0x98, CHR 0xD1, CHR 0x81, CHR 0xD1, CHR 0x82, CHR 0xD0, CHR 0xBE, CHR 0xD1,
     CHR 0x80, CHR 0xD0, CHR 0xB8, CHR 0xD1, CHR 0x8F, CHR '' '', CHR 0xD0, CHR 0xBF, CHR 0xD0,
     CHR 0xBE, CHR 0xD1, CHR 0x82, CHR 0xD0, CHR 0xBE, CHR 0xD0, CHR 0xBA, CHR 0xD0, CHR 0xB0,
     CHR '' '', CHR ''('', CHR ''F'', CHR ''l'', CHR ''o'', CHR ''w'', CHR '' '', CHR ''H'',
     CHR ''i'', CHR ''s'', CHR ''t'', CHR ''o'', CHR ''r'', CHR ''y'', CHR '')'']"

text \<open>\<^verbatim>\<open>MenuRollback\<close> (models.go): bring back a past vibe, as UTF-8 bytes.\<close>

definition MenuRollback :: string where
  "MenuRollback =
    [CHR 0xD0, CHR 0x92, CHR 0xD0, CHR 0xB5, CHR 0xD1, CHR 0x80, CHR 0xD0, CHR 0xBD, CHR 0xD1,
     CHR 0x83, CHR 0xD1, CHR 0x82, CHR 0xD1, CHR 0x8C, CHR '' '', CHR 0xD0, CHR 0xBF, CHR 0xD1,
     CHR 0x80, CHR 0xD0, CHR 0xBE, CHR 0xD1, CHR 0x88, CHR 0xD0, CHR 0xBB, CHR 0xD1, CHR 0x8B,
     CHR 0xD0, CHR 0xB9, CHR '' '', CHR 0xD0, CHR 0xB2, CHR 0xD0, CHR 0xB0, CHR 0xD0, CHR 0xB9,
     CHR 0xD0, CHR 0xB1]"

text \<open>\<^verbatim>\<open>MenuSync\<close> (models.go): sync with the cloud, as UTF-8 bytes.\<close>

definition MenuSync :: string where
  "MenuSync =
    [CHR 0xD0, CHR 0xA1, CHR 0xD0, CHR 0xB8, CHR 0xD0, CHR 0xBD, CHR 0xD0, CHR 0xBA, CHR 0xD0,
     CHR 0xBD, CHR 0xD1, CHR 0x83, CHR 0xD1, CHR 0x82, CHR 0xD1, CHR 0x8C, CHR '' '', CHR 0xD1,
     CHR 0x81, CHR '' '', CHR 0xD0, CHR 0xBE, CHR 0xD0, CHR 0xB1, CHR 0xD0, CHR 0xBB, CHR 0xD0,
     CHR 0xB0, CHR 0xD0, CHR 0xBA, CHR 0xD0, CHR 0xBE, CHR 0xD0, CHR 0xBC]"

text \<open>\<^verbatim>\<open>ErrFailedToAddFiles\<close> (models.go): could not add the files, as UTF-8 bytes.\<close>

definition ErrFailedToAddFiles :: string where
  "ErrFailedToAddFiles =
    [CHR 0xD0, CHR 0xBD, CHR 0xD0, CHR 0xB5, CHR '' '', CHR 0xD1, CHR 0x83, CHR 0xD0, CHR 0xB4,
     CHR 0xD0, CHR 0xB0, CHR 0xD0, CHR 0xBB, CHR 0xD0, CHR 0xBE, CHR 0xD1, CHR 0x81, CHR 0xD1,
     CHR 0x8C, CHR '' '', CHR 0xD0, CHR 0xB4, CHR 0xD0, CHR 0xBE, CHR 0xD0, CHR 0xB1, CHR 0xD0,
     CHR 0xB0, CHR 0xD0, CHR 0xB2, CHR 0xD0, CHR 0xB8, CHR 0xD1, CHR 0x82, CHR 0xD1, CHR 0x8C,
     CHR '' '', CHR 0xD1, CHR 0x84, CHR 0xD0, CHR 0xB0, CHR 0xD0, CHR 0xB9, CHR 0xD0, CHR 0xBB,
     CHR 0xD1, CHR 0x8B]"

text \<open>\<^verbatim>\<open>ErrFailedToCreateCheckpoint\<close> (models.go): could not record the moment, as UTF-8 bytes.\<close>

definition ErrFailedToCreateCheckpoint :: string where
  "ErrFailedToCreateCheckpoint =
    [CHR 0xD0, CHR 0xBD, CHR 0xD0, CHR 0xB5, CHR '' '', CHR 0xD1, CHR 0x83, CHR 0xD0, CHR 0xB4,
     CHR 0xD0, CHR 0xB0, CHR 0xD0, CHR 0xBB, CHR 0xD0, CHR 0xBE, CHR 0xD1, CHR 0x81, CHR 0xD1,
     CHR 0x8C, CHR '' '', CHR 0xD0, CHR 0xB7, CHR 0xD0, CHR 0xB0, CHR 0xD1, CHR 0x84, CHR 0xD0,
     CHR 0xB8, CHR 0xD0, CHR 0xBA, CHR 0xD1, CHR 0x81, CHR 0xD0, CHR 0xB8, CHR 0xD1, CHR 0x80,
     CHR 0xD0, CHR 0xBE, CHR 0xD0, CHR 0xB2, CHR 0xD0, CHR 0xB0, CHR 0xD1, CHR 0x82, CHR 0xD1,
     CHR 0x8C, CHR '' '', CHR 0xD0, CHR 0xBC, CHR 0xD0, CHR 0xBE, CHR 0xD0, CHR 0xBC, CHR 0xD0,
     CHR 0xB5, CHR 0xD0, CHR 0xBD, CHR 0xD1, CHR 0x82]"

text \<open>\<^verbatim>\<open>ErrFailedToOpenRepo\<close> (models.go): could not open the project, as UTF-8 bytes.\<close>

definition ErrFailedToOpenRepo :: string where
  "ErrFailedToOpenRepo =
    [CHR 0xD0, CHR 0xBD, CHR 0xD0, CHR 0xB5, CHR '' '', CHR 0xD1, CHR 0x83, CHR 0xD0, CHR 0xB4,
     CHR 0xD0, CHR 0xB0, CHR 0xD0, CHR 0xBB, CHR 0xD0, CHR 0xBE, CHR 0xD1, CHR 0x81, CHR 0xD1,
     CHR 0x8C, CHR '' '', CHR 0xD0, CHR 0xBE, CHR 0xD1, CHR 0x82, CHR 0xD0, CHR 0xBA, CHR 0xD1,
     CHR 0x80, CHR 0xD1, CHR 0x8B, CHR 0xD1, CHR 0x82, CHR 0xD1, CHR 0x8C, CHR '' '', CHR 0xD0,
     CHR 0xBF, CHR 0xD1, CHR 0x80, CHR 0xD0, CHR 0xBE, CHR 0xD0, CHR 0xB5, CHR 0xD0, CHR 0xBA,
     CHR 0xD1, CHR 0x82]"

text \<open>\<^verbatim>\<open>ErrFailedToGetWorktree\<close> (models.go): could not get the working folder, as UTF-8 bytes.\<close>

definition ErrFailedToGetWorktree :: string where
  "ErrFailedToGetWorktree =
    [CHR 0xD0, CHR 0xBD, CHR 0xD0, CHR 0xB5, CHR '' '', CHR 0xD1, CHR 0x83, CHR 0xD0, CHR 0xB4,
     CHR 0xD0, CHR 0xB0, CHR 0xD0, CHR 0xBB, CHR 0xD0, CHR 0xBE, CHR 0xD1, CHR 0x81, CHR 0xD1,
     CHR 0x8C, CHR '' '', CHR 0xD0, CHR 0xBF, CHR 0xD0, CHR 0xBE, CHR 0xD0, CHR 0xBB, CHR 0xD1,
     CHR 0x83, CHR 0xD1, CHR 0x87, CHR 0xD0, CHR 0xB8, CHR 0xD1, CHR 0x82, CHR 0xD1, CHR 0x8C,
     CHR '' '', CHR 0xD1, CHR 0x80, CHR 0xD0, CHR 0xB0, CHR 0xD0, CHR 0xB1, CHR 0xD0, CHR 0xBE,
     CHR 0xD1, CHR 0x87, CHR 0xD1, CHR 0x83, CHR 0xD1, CHR 0x8E, CHR '' '', CHR 0xD0, CHR 0xBF,
     CHR 0xD0, CHR 0xB0, CHR 0xD0, CHR 0xBF, CHR 0xD0, CHR 0xBA, CHR 0xD1, CHR 0x83]"

text \<open>\<^verbatim>\<open>ErrFailedToGetStatus\<close> (models.go): could not get the status, as UTF-8 bytes.\<close>

definition ErrFailedToGetStatus :: string where
  "ErrFailedToGetStatus =
    [CHR 0xD0, CHR 0xBD, CHR 0xD0, CHR 0xB5, CHR '' '', CHR 0xD1, CHR 0x83, CHR 0xD0, CHR 0xB4,
     CHR 0xD0, CHR 0xB0, CHR 0xD0, CHR 0xBB, CHR 0xD0, CHR 0xBE, CHR 0xD1, CHR 0x81, CHR 0xD1,
     CHR 0x8C, CHR '' '', CHR 0xD0, CHR 0xBF, CHR 0xD0, CHR 0xBE, CHR 0xD0, CHR 0xBB, CHR 0xD1,
     CHR 0x83, CHR 0xD1, CHR 0x87, CHR 0xD0, CHR 0xB8, CHR 0xD1, CHR 0x82, CHR 0xD1, CHR 0x8C,
     CHR '' '', CHR 0xD1, CHR 0x81, CHR 0xD1, CHR 0x82, CHR 0xD0, CHR 0xB0, CHR 0xD1, CHR 0x82,
     CHR 0xD1, CHR 0x83, CHR 0xD1, CHR 0x81]"

text \<open>\<^verbatim>\<open>ErrFailedToCommit\<close> (models.go): could not save the conflict resolution, as UTF-8 bytes.\<close>

definition ErrFailedToCommit :: string where
  "ErrFailedToCommit =
    [CHR 0xD0, CHR 0xBD, CHR 0xD0, CHR 0xB5, CHR '' '', CHR 0xD1, CHR 0x83, CHR 0xD0, CHR 0xB4,
     CHR 0xD0, CHR 0xB0, CHR 0xD0, CHR 0xBB, CHR 0xD0, CHR 0xBE, CHR 0xD1, CHR 0x81, CHR 0xD1,
     CHR 0x8C, CHR '' '', CHR 0xD1, CHR 0x81, CHR 0xD0, CHR 0xBE, CHR 0xD1, CHR 0x85, CHR 0xD1,
     CHR 0x80, CHR 0xD0, CHR 0xB0, CHR 0xD0, CHR 0xBD, CHR 0xD0, CHR 0xB8, CHR 0xD1, CHR 0x82,
     CHR 0xD1, CHR 0x8C, CHR '' '', CHR 0xD1, CHR 0x80, CHR 0xD0, CHR 0xB5, CHR 0xD1, CHR 0x88,
     CHR 0xD0, CHR 0xB5, CHR 0xD0, CHR 0xBD, CHR 0xD0, CHR 0xB8, CHR 0xD0, CHR 0xB5, CHR '' '',
     CHR 0xD0, CHR 0xBA, CHR 0xD0, CHR 0xBE, CHR 0xD0, CHR 0xBD, CHR 0xD1, CHR 0x84, CHR 0xD0,
     CHR 0xBB, CHR 0xD0, CHR 0xB8, CHR 0xD0, CHR 0xBA, CHR 0xD1, CHR 0x82, CHR 0xD0, CHR 0xB0]"

text \<open>\<^verbatim>\<open>ErrFailedToAddChanges\<close> (models.go): could not add the changes, as UTF-8 bytes.\<close>

definition ErrFailedToAddChanges :: string where
  "ErrFailedToAddChanges =
    [CHR 0xD0, CHR 0xBD, CHR 0xD0, CHR 0xB5, CHR '' '', CHR 0xD1, CHR 0x83, CHR 0xD0, CHR 0xB4,
     CHR 0xD0, CHR 0xB0, CHR 0xD0, CHR 0xBB, CHR 0xD0, CHR 0xBE, CHR 0xD1, CHR 0x81, CHR 0xD1,
     CHR 0x8C, CHR '' '', CHR 0xD0, CHR 0xB4, CHR 0xD0, CHR 0xBE, CHR 0xD0, CHR 0xB1, CHR 0xD0,
     CHR 0xB0, CHR 0xD0, CHR 0xB2, CHR 0xD0, CHR 0xB8, CHR 0xD1, CHR 0x82, CHR 0xD1, CHR 0x8C,
     CHR '' '', CHR 0xD0, CHR 0xB8, CHR 0xD0, CHR 0xB7, CHR 0xD0, CHR 0xBC, CHR 0xD0, CHR 0xB5,
     CHR 0xD0, CHR 0xBD, CHR 0xD0, CHR 0xB5, CHR 0xD0, CHR 0xBD, CHR 0xD0, CHR 0xB8, CHR 0xD1,
     CHR 0x8F]"

text \<open>\<^verbatim>\<open>ErrFailedToPush\<close> (models.go): could not send the copy, as UTF-8 bytes.\<close>

definition ErrFailedToPush :: string where
  "ErrFailedToPush =
    [CHR 0xD0, CHR 0xBD, CHR 0xD0, CHR 0xB5, CHR '' '', CHR 0xD1, CHR 0x83, CHR 0xD0, CHR 0xB4,
     CHR 0xD0, CHR 0xB0, CHR 0xD0, CHR 0xBB, CHR 0xD0, CHR 0xBE, CHR 0xD1, CHR 0x81, CHR 0xD1,
     CHR 0x8C, CHR '' '', CHR 0xD0, CHR 0xBE, CHR 0xD1, CHR 0x82, CHR 0xD0, CHR 0xBF, CHR 0xD1,
     CHR 0x80, CHR 0xD0, CHR 0xB0, CHR 0xD0, CHR 0xB2, CHR 0xD0, CHR 0xB8, CHR 0xD1, CHR 0x82,
     CHR 0xD1, CHR 0x8C, CHR '' '', CHR 0xD0, CHR 0xBA, CHR 0xD0, CHR 0xBE, CHR 0xD0, CHR 0xBF,
     CHR 0xD0, CHR 0xB8, CHR 0xD1, CHR 0x8E]"

text \<open>\<^verbatim>\<open>ErrNoRemote\<close> (models.go): remote storage not found; this is only a local version, as UTF-8 bytes.\<close>

definition ErrNoRemote :: string where
  "ErrNoRemote =
    [CHR 0xD0, CHR 0xA3, CHR 0xD0, CHR 0xB4, CHR 0xD0, CHR 0xB0, CHR 0xD0, CHR 0xBB, CHR 0xD0,
     CHR 0xB5, CHR 0xD0, CHR 0xBD, CHR 0xD0, CHR 0xBD, CHR 0xD0, CHR 0xBE, CHR 0xD0, CHR 0xB5,
     CHR '' '', CHR 0xD1, CHR 0x85, CHR 0xD1, CHR 0x80, CHR 0xD0, CHR 0xB0, CHR 0xD0, CHR 0xBD,
     CHR 0xD0, CHR 0xB8, CHR 0xD0, CHR 0xBB, CHR 0xD0, CHR 0xB8, CHR 0xD1, CHR 0x89, CHR 0xD0,
     CHR 0xB5, CHR '' '', CHR 0xD0, CHR 0xBD, CHR 0xD0, CHR 0xB5, CHR '' '', CHR 0xD0,
     CHR 0xBD, CHR 0xD0, CHR 0xB0, CHR 0xD0, CHR 0xB9, CHR 0xD0, CHR 0xB4, CHR 0xD0, CHR 0xB5,
     CHR 0xD0, CHR 0xBD, CHR 0xD0, CHR 0xBE, CHR ''.'', CHR '' '', CHR 0xD0, CHR 0xAD,
     CHR 0xD1, CHR 0x82, CHR 0xD0, CHR 0xBE, CHR '' '', CHR 0xD1, CHR 0x82, CHR 0xD0, CHR 0xBE,
     CHR 0xD0, CHR 0xBB, CHR 0xD1, CHR 0x8C, CHR 0xD0, CHR 0xBA, CHR 0xD0, CHR 0xBE, CHR '' '',
     CHR 0xD0, CHR 0xBB, CHR 0xD0, CHR 0xBE, CHR 0xD0, CHR 0xBA, CHR 0xD0, CHR 0xB0, CHR 0xD0,
     CHR 0xBB, CHR 0xD1, CHR 0x8C, CHR 0xD0, CHR 0xBD, CHR 0xD0, CHR 0xB0, CHR 0xD1, CHR 0x8F,
     CHR '' '', CHR 0xD0, CHR 0xB2, CHR 0xD0, CHR 0xB5, CHR 0xD1, CHR 0x80, CHR 0xD1, CHR 0x81,
     CHR 0xD0, CHR 0xB8, CHR 0xD1, CHR 0x8F, CHR ''.'']"

text \<open>\<^verbatim>\<open>ErrAlreadyUpToDate\<close> (models.go): everything is up to date, as UTF-8 bytes.\<close>

definition ErrAlreadyUpToDate :: string where
  "ErrAlreadyUpToDate =
    [CHR 0xD0, CHR 0x92, CHR 0xD1, CHR 0x81, CHR 0xD1, CHR 0x91, CHR '' '', CHR 0xD0, CHR 0xB0,
     CHR 0xD0, CHR 0xBA, CHR 0xD1, CHR 0x82, CHR 0xD1, CHR 0x83, CHR 0xD0, CHR 0xB0, CHR 0xD0,
     CHR 0xBB, CHR 0xD1, CHR 0x8C, CHR 0xD0, CHR 0xBD, CHR 0xD0, CHR 0xBE]"

text \<open>\<^verbatim>\<open>ErrConflictsDetected\<close> (models.go): conflicts resolved automatically, as UTF-8 bytes.\<close>

definition ErrConflictsDetected :: string where
  "ErrConflictsDetected =
    [CHR 0xD0, CHR 0x9A, CHR 0xD0, CHR 0xBE, CHR 0xD0, CHR 0xBD, CHR 0xD1, CHR 0x84, CHR 0xD0,
     CHR 0xBB, CHR 0xD0, CHR 0xB8, CHR 0xD0, CHR 0xBA, CHR 0xD1, CHR 0x82, CHR 0xD1, CHR 0x8B,
     CHR '' '', CHR 0xD1, CHR 0x80, CHR 0xD0, CHR 0xB5, CHR 0xD1, CHR 0x88, CHR 0xD0, CHR 0xB5,
     CHR 0xD0, CHR 0xBD, CHR 0xD1, CHR 0x8B, CHR '' '', CHR 0xD0, CHR 0xB0, CHR 0xD0, CHR 0xB2,
     CHR 0xD1, CHR 0x82, CHR 0xD0, CHR 0xBE, CHR 0xD0, CHR 0xBC, CHR 0xD0, CHR 0xB0, CHR 0xD1,
     CHR 0x82, CHR 0xD0, CHR 0xB8, CHR 0xD1, CHR 0x87, CHR 0xD0, CHR 0xB5, CHR 0xD1, CHR 0x81,
     CHR 0xD0, CHR 0xBA, CHR 0xD0, CHR 0xB8]"

text \<open>\<^verbatim>\<open>ErrForcePushSuccess\<close> (models.go): copy sent by force, as UTF-8 bytes.\<close>

definition ErrForcePushSuccess :: string where
  "ErrForcePushSuccess =
    [CHR 0xD0, CHR 0x9A, CHR 0xD0, CHR 0xBE, CHR 0xD0, CHR 0xBF, CHR 0xD0, CHR 0xB8, CHR 0xD1,
     CHR 0x8F, CHR '' '', CHR 0xD0, CHR 0xBE, CHR 0xD1, CHR 0x82, CHR 0xD0, CHR 0xBF, CHR 0xD1,
     CHR 0x80, CHR 0xD0, CHR 0xB0, CHR 0xD0, CHR 0xB2, CHR 0xD0, CHR 0xBB, CHR 0xD0, CHR 0xB5,
     CHR 0xD0, CHR 0xBD, CHR 0xD0, CHR 0xB0, CHR '' '', CHR 0xD0, CHR 0xBF, CHR 0xD1, CHR 0x80,
     CHR 0xD0, CHR 0xB8, CHR 0xD0, CHR 0xBD, CHR 0xD1, CHR 0x83, CHR 0xD0, CHR 0xB4, CHR 0xD0,
     CHR 0xB8, CHR 0xD1, CHR 0x82, CHR 0xD0, CHR 0xB5, CHR 0xD0, CHR 0xBB, CHR 0xD1, CHR 0x8C,
     CHR 0xD0, CHR 0xBD, CHR 0xD0, CHR 0xBE]"

text \<open>\<^verbatim>\<open>ErrPushSuccess\<close> (models.go): copy sent successfully, as UTF-8 bytes.\<close>

definition ErrPushSuccess :: string where
  "ErrPushSuccess =
    [CHR 0xD0, CHR 0x9A, CHR 0xD0, CHR 0xBE, CHR 0xD0, CHR 0xBF, CHR 0xD0, CHR 0xB8, CHR 0xD1,
     CHR 0x8F, CHR '' '', CHR 0xD0, CHR 0xBE, CHR 0xD1, CHR 0x82, CHR 0xD0, CHR 0xBF, CHR 0xD1,
     CHR 0x80, CHR 0xD0, CHR 0xB0, CHR 0xD0, CHR 0xB2, CHR 0xD0, CHR 0xBB, CHR 0xD0, CHR 0xB5,
     CHR 0xD0, CHR 0xBD, CHR 0xD0, CHR 0xB0, CHR '' '', CHR 0xD1, CHR 0x83, CHR 0xD1, CHR 0x81,
     CHR 0xD0, CHR 0xBF, CHR 0xD0, CHR 0xB5, CHR 0xD1, CHR 0x88, CHR 0xD0, CHR 0xBD, CHR 0xD0,
     CHR 0xBE]"

text \<open>\<^verbatim>\<open>ErrPullSuccess\<close> (models.go): copy received successfully, as UTF-8 bytes.\<close>

definition ErrPullSuccess :: string where
  "ErrPullSuccess =
    [CHR 0xD0, CHR 0x9A, CHR 0xD0, CHR 0xBE, CHR 0xD0, CHR 0xBF, CHR 0xD0, CHR 0xB8, CHR 0xD1,
     CHR 0x8F, CHR '' '', CHR 0xD0, CHR 0xBF, CHR 0xD0, CHR 0xBE, CHR 0xD0, CHR 0xBB, CHR 0xD1,
     CHR 0x83, CHR 0xD1, CHR 0x87, CHR 0xD0, CHR 0xB5, CHR 0xD0, CHR 0xBD, CHR 0xD0, CHR 0xB0,
     CHR '' '', CHR 0xD1, CHR 0x83, CHR 0xD1, CHR 0x81, CHR 0xD0, CHR 0xBF, CHR 0xD0, CHR 0xB5,
     CHR 0xD1, CHR 0x88, CHR 0xD0, CHR 0xBD, CHR 0xD0, CHR 0xBE]"

text \<open>\<^verbatim>\<open>CheckpointAuthorName\<close> (models.go): Time Machine (in Russian), as UTF-8 bytes.\<close>

definition CheckpointAuthorName :: string where
  "CheckpointAuthorName =
    [CHR 0xD0, CHR 0x9C, CHR 0xD0, CHR 0xB0, CHR 0xD1, CHR 0x88, CHR 0xD0, CHR 0xB8, CHR 0xD0,
     CHR 0xBD, CHR 0xD0, CHR 0xB0, CHR '' '', CHR 0xD0, CHR 0x92, CHR 0xD1, CHR 0x80, CHR 0xD0,
     CHR 0xB5, CHR 0xD0, CHR 0xBC, CHR 0xD0, CHR 0xB5, CHR 0xD0, CHR 0xBD, CHR 0xD0, CHR 0xB8]"

definition CheckpointAuthorEmail :: string where
  "CheckpointAuthorEmail =
    [CHR ''t'', CHR ''i'', CHR ''m'', CHR ''e'', CHR ''m'', CHR ''a'', CHR ''c'', CHR ''h'',
     CHR ''i'', CHR ''n'', CHR ''e'', CHR ''@'', CHR ''l'', CHR ''o'', CHR ''c'', CHR ''a'',
     CHR ''l'']"

definition ConflictAuthorName :: string where
  "ConflictAuthorName =
    [CHR ''T'', CHR ''i'', CHR ''m'', CHR ''e'', CHR '' '', CHR ''M'', CHR ''a'', CHR ''c'',
     CHR ''h'', CHR ''i'', CHR ''n'', CHR ''e'', CHR '' '', CHR ''T'', CHR ''U'', CHR ''I'']"

definition ConflictAuthorEmail :: string where
  "ConflictAuthorEmail =
    [CHR ''t'', CHR ''i'', CHR ''m'', CHR ''e'', CHR ''m'', CHR ''a'', CHR ''c'', CHR ''h'',
     CHR ''i'', CHR ''n'', CHR ''e'', CHR ''@'', CHR ''l'', CHR ''o'', CHR ''c'', CHR ''a'',
     CHR ''l'']"

definition Suggestion1 :: string where
  "Suggestion1 =
    [CHR 0xD0, CHR 0x9F, CHR 0xD0, CHR 0xBE, CHR 0xD0, CHR 0xB9, CHR 0xD0, CHR 0xBC, CHR 0xD0,
     CHR 0xB0, CHR 0xD0, CHR 0xBB, CHR '' '', CHR 0xD0, CHR 0xB2, CHR 0xD0, CHR 0xBE, CHR 0xD0,
     CHR 0xBB, CHR 0xD0, CHR 0xBD, CHR 0xD1, CHR 0x83, CHR '' '', CHR 0xF0, CHR 0x9F, CHR 0x8C,
     CHR 0x8A]"

definition Suggestion2 :: string where
  "Suggestion2 =
    [CHR 0xD0, CHR 0xA4, CHR 0xD0, CHR 0xB8, CHR 0xD0, CHR 0xBA, CHR 0xD1, CHR 0x81, CHR '' '',
     CHR 0xD0, CHR 0xBD, CHR 0xD0, CHR 0xB0, CHR '' '', CHR 0xD0, CHR 0xBB, CHR 0xD0, CHR 0xB5,
     CHR 0xD1, CHR 0x82, CHR 0xD1, CHR 0x83, CHR '' '', CHR 0xF0, CHR 0x9F, CHR 0x90, CHR 0x9B]"

definition Suggestion3 :: string where
  "Suggestion3 =
    [CHR 0xD0, CHR 0x9D, CHR 0xD0, CHR 0xBE, CHR 0xD0, CHR 0xB2, CHR 0xD0, CHR 0xB0, CHR 0xD1,
     CHR 0x8F, CHR '' '', CHR 0xD1, CHR 0x84, CHR 0xD0, CHR 0xB8, CHR 0xD1, CHR 0x87, CHR 0xD0,
     CHR 0xB0, CHR '' '', CHR 0xD0, CHR 0xB3, CHR 0xD0, CHR 0xBE, CHR 0xD1, CHR 0x82, CHR 0xD0,
     CHR 0xBE, CHR 0xD0, CHR 0xB2, CHR 0xD0, CHR 0xB0, CHR '' '', CHR 0xE2, CHR 0x9C, CHR 0xA8]"

definition Suggestion4 :: string where
  "Suggestion4 =
    [CHR 0xD0, CHR 0xA0, CHR 0xD0, CHR 0xB5, CHR 0xD1, CHR 0x84, CHR 0xD0, CHR 0xB0, CHR 0xD0,
     CHR 0xBA, CHR 0xD1, CHR 0x82, CHR 0xD0, CHR 0xBE, CHR 0xD1, CHR 0x80, CHR 0xD0, CHR 0xB8,
     CHR 0xD0, CHR 0xBD, CHR 0xD0, CHR 0xB3, CHR '' '', CHR 0xD0, CHR 0xB4, CHR 0xD0, CHR 0xBB,
     CHR 0xD1, CHR 0x8F, CHR '' '', CHR 0xD0, CHR 0xB4, CHR 0xD1, CHR 0x83, CHR 0xD1, CHR 0x88,
     CHR 0xD0, CHR 0xB8, CHR '' '', CHR 0xF0, CHR 0x9F, CHR 0xA7, CHR 0xB9]"

definition Suggestion5 :: string where
  "Suggestion5 =
    [CHR 0xD0, CHR 0xAD, CHR 0xD0, CHR 0xBA, CHR 0xD1, CHR 0x81, CHR 0xD0, CHR 0xBF, CHR 0xD0,
     CHR 0xB5, CHR 0xD1, CHR 0x80, CHR 0xD0, CHR 0xB8, CHR 0xD0, CHR 0xBC, CHR 0xD0, CHR 0xB5,
     CHR 0xD0, CHR 0xBD, CHR 0xD1, CHR 0x82, CHR 0xD1, CHR 0x8B, CHR '' '', CHR 0xD1, CHR 0x81,
     CHR '' '', CHR 0xD0, CHR 0xBA, CHR 0xD0, CHR 0xBE, CHR 0xD0, CHR 0xB4, CHR 0xD0, CHR 0xBE,
     CHR 0xD0, CHR 0xBC, CHR '' '', CHR 0xF0, CHR 0x9F, CHR 0xA7, CHR 0xAA]"

definition Suggestion6 :: string where
  "Suggestion6 =
    [CHR 0xD0, CHR 0x9F, CHR 0xD1, CHR 0x80, CHR 0xD0, CHR 0xBE, CHR 0xD1, CHR 0x81, CHR 0xD1,
     CHR 0x82, CHR 0xD0, CHR 0xBE, CHR '' '', CHR 0xD1, CHR 0x81, CHR 0xD0, CHR 0xB5, CHR 0xD0,
     CHR 0xB9, CHR 0xD0, CHR 0xB2, CHR '' '', CHR 0xD0, CHR 0xBD, CHR 0xD0, CHR 0xB0,
     CHR '' '', CHR 0xD0, CHR 0xB2, CHR 0xD1, CHR 0x81, CHR 0xD1, CHR 0x8F, CHR 0xD0, CHR 0xBA,
     CHR 0xD0, CHR 0xB8, CHR 0xD0, CHR 0xB9, CHR '' '', CHR 0xD1, CHR 0x81, CHR 0xD0, CHR 0xBB,
     CHR 0xD1, CHR 0x83, CHR 0xD1, CHR 0x87, CHR 0xD0, CHR 0xB0, CHR 0xD0, CHR 0xB9, CHR '' '',
     CHR 0xF0, CHR 0x9F, CHR 0x9B, CHR 0xA1, CHR 0xEF, CHR 0xB8, CHR 0x8F]"

definition Suggestion7 :: string where
  "Suggestion7 =
    [CHR 0xD0, CHR 0x9A, CHR 0xD1, CHR 0x80, CHR 0xD0, CHR 0xB0, CHR 0xD1, CHR 0x81, CHR 0xD0,
     CHR 0xB8, CHR 0xD0, CHR 0xB2, CHR 0xD0, CHR 0xBE, CHR '' '', CHR 0xD1, CHR 0x81, CHR 0xD0,
     CHR 0xB4, CHR 0xD0, CHR 0xB5, CHR 0xD0, CHR 0xBB, CHR 0xD0, CHR 0xB0, CHR 0xD0, CHR 0xBB,
     CHR '' '', CHR 0xF0, CHR 0x9F, CHR 0x8E, CHR 0xA8]"

definition Suggestion8 :: string where
  "Suggestion8 =
    [CHR 0xD0, CHR 0x9E, CHR 0xD0, CHR 0xBF, CHR 0xD1, CHR 0x82, CHR 0xD0, CHR 0xB8, CHR 0xD0,
     CHR 0xBC, CHR 0xD0, CHR 0xB8, CHR 0xD0, CHR 0xB7, CHR 0xD0, CHR 0xB0, CHR 0xD1, CHR 0x86,
     CHR 0xD0, CHR 0xB8, CHR 0xD1, CHR 0x8F, CHR '' '', CHR 0xF0, CHR 0x9F, CHR 0x9A, CHR 0x80]"

definition Suggestion9 :: string where
  "Suggestion9 =
    [CHR 0xD0, CHR 0xA2, CHR 0xD0, CHR 0xB5, CHR 0xD1, CHR 0x81, CHR 0xD1, CHR 0x82, CHR 0xD1,
     CHR 0x8B, CHR '' '', CHR 0xD0, CHR 0xBF, CHR 0xD1, CHR 0x80, CHR 0xD0, CHR 0xBE, CHR 0xD1,
     CHR 0x88, CHR 0xD0, CHR 0xBB, CHR 0xD0, CHR 0xB8, CHR '' '', CHR 0xE2, CHR 0x9C, CHR 0x85]"

definition Suggestion10 :: string where
  "Suggestion10 =
    [CHR 0xD0, CHR 0x92, CHR 0xD0, CHR 0xB0, CHR 0xD0, CHR 0xB9, CHR 0xD0, CHR 0xB1, CHR '' '',
     CHR 0xD1, CHR 0x87, CHR 0xD0, CHR 0xB5, CHR 0xD0, CHR 0xBA, CHR '' '', CHR 0xF0, CHR 0x9F,
     CHR 0xA4, CHR 0x99]"

definition Suggestion11 :: string where
  "Suggestion11 =
    [CHR 0xD0, CHR 0x9F, CHR 0xD1, CHR 0x80, CHR 0xD0, CHR 0xBE, CHR 0xD0, CHR 0xB3, CHR 0xD1,
     CHR 0x80, CHR 0xD0, CHR 0xB5, CHR 0xD1, CHR 0x81, CHR 0xD1, CHR 0x81, CHR '' '', CHR 0xD0,
     CHR 0xBD, CHR 0xD0, CHR 0xB5, CHR 0xD0, CHR 0xBE, CHR 0xD1, CHR 0x81, CHR 0xD1, CHR 0x82,
     CHR 0xD0, CHR 0xB0, CHR 0xD0, CHR 0xBD, CHR 0xD0, CHR 0xBE, CHR 0xD0, CHR 0xB2, CHR 0xD0,
     CHR 0xB8, CHR 0xD0, CHR 0xBC, CHR '' '', CHR 0xF0, CHR 0x9F, CHR 0x94, CHR 0xA5]"

definition Suggestion12 :: string where
  "Suggestion12 =
    [CHR 0xD0, CHR 0x9C, CHR 0xD0, CHR 0xB0, CHR 0xD0, CHR 0xB3, CHR 0xD0, CHR 0xB8, CHR 0xD1,
     CHR 0x8F, CHR '' '', CHR 0xD0, CHR 0xBA, CHR 0xD0, CHR 0xBE, CHR 0xD0, CHR 0xB4, CHR 0xD0,
     CHR 0xB0, CHR '' '', CHR 0xF0, CHR 0x9F, CHR 0xAA, CHR 0x84]"

definition Suggestion13 :: string where
  "Suggestion13 =
    [CHR 0xD0, CHR 0x94, CHR 0xD0, CHR 0xB7, CHR 0xD0, CHR 0xB5, CHR 0xD0, CHR 0xBD, CHR ''-'',
     CHR 0xD0, CHR 0xBA, CHR 0xD0, CHR 0xBE, CHR 0xD0, CHR 0xB4, CHR '' '', CHR 0xF0, CHR 0x9F,
     CHR 0xA7, CHR 0x98]"

definition Suggestion14 :: string where
  "Suggestion14 =
    [CHR 0xD0, CHR 0x95, CHR 0xD1, CHR 0x89, CHR 0xD1, CHR 0x91, CHR '' '', CHR 0xD0, CHR 0xBE,
     CHR 0xD0, CHR 0xB4, CHR 0xD0, CHR 0xB8, CHR 0xD0, CHR 0xBD, CHR '' '', CHR 0xD1, CHR 0x88,
     CHR 0xD0, CHR 0xB0, CHR 0xD0, CHR 0xB3, CHR '' '', CHR 0xD0, CHR 0xBA, CHR '' '',
     CHR 0xD1, CHR 0x80, CHR 0xD0, CHR 0xB5, CHR 0xD0, CHR 0xBB, CHR 0xD0, CHR 0xB8, CHR 0xD0,
     CHR 0xB7, CHR 0xD1, CHR 0x83, CHR '' '', CHR 0xF0, CHR 0x9F, CHR 0x8E, CHR 0xAF]"

definition DefaultSuggestions :: "string list" where
  "DefaultSuggestions =
    [Suggestion1, Suggestion2, Suggestion3, Suggestion4, Suggestion5, Suggestion6, Suggestion7,
     Suggestion8, Suggestion9, Suggestion10, Suggestion11, Suggestion12, Suggestion13,
     Suggestion14]"

text \<open>The package-level \<^verbatim>\<open>GetMenuItems()\<close>: always the four actions.\<close>

definition GetMenuItems :: "string list" where
  "GetMenuItems = [MenuCreateCheckpoint, MenuViewHistory, MenuRollback, MenuSync]"

text \<open>The method \<^verbatim>\<open>(m *Model) GetMenuItems()\<close>: the menu of the current state.\<close>

definition Model_GetMenuItems :: "Model \<Rightarrow> string list" where
  "Model_GetMenuItems m =
    (if GitNotInitialized m then [MenuInitGit]
     else [MenuCreateCheckpoint, MenuViewHistory, MenuRollback, MenuSync])"

text \<open>\<^verbatim>\<open>LoadingTextInit\<close> (main.go, handleMenuSelection): setting up the space, as UTF-8 bytes.\<close>

definition LoadingTextInit :: string where
  "LoadingTextInit =
    [CHR 0xD0, CHR 0x9D, CHR 0xD0, CHR 0xB0, CHR 0xD1, CHR 0x81, CHR 0xD1, CHR 0x82, CHR 0xD1,
     CHR 0x80, CHR 0xD0, CHR 0xB0, CHR 0xD0, CHR 0xB8, CHR 0xD0, CHR 0xB2, CHR 0xD0, CHR 0xB0,
     CHR 0xD1, CHR 0x8E, CHR '' '', CHR 0xD0, CHR 0xBF, CHR 0xD1, CHR 0x80, CHR 0xD0, CHR 0xBE,
     CHR 0xD1, CHR 0x81, CHR 0xD1, CHR 0x82, CHR 0xD1, CHR 0x80, CHR 0xD0, CHR 0xB0, CHR 0xD0,
     CHR 0xBD, CHR 0xD1, CHR 0x81, CHR 0xD1, CHR 0x82, CHR 0xD0, CHR 0xB2, CHR 0xD0, CHR 0xBE,
     CHR ''.'', CHR ''.'', CHR ''.'']"

text \<open>\<^verbatim>\<open>LoadingTextDescription\<close> (main.go, handleMenuSelection): catching inspiration, as UTF-8 bytes.\<close>

definition LoadingTextDescription :: string where
  "LoadingTextDescription =
    [CHR 0xD0, CHR 0x9B, CHR 0xD0, CHR 0xBE, CHR 0xD0, CHR 0xB2, CHR 0xD0, CHR 0xBB, CHR 0xD1,
     CHR 0x8E, CHR '' '', CHR 0xD0, CHR 0xB2, CHR 0xD0, CHR 0xB4, CHR 0xD0, CHR 0xBE, CHR 0xD1,
     CHR 0x85, CHR 0xD0, CHR 0xBD, CHR 0xD0, CHR 0xBE, CHR 0xD0, CHR 0xB2, CHR 0xD0, CHR 0xB5,
     CHR 0xD0, CHR 0xBD, CHR 0xD0, CHR 0xB8, CHR 0xD0, CHR 0xB5, CHR ''.'', CHR ''.'', CHR ''.'']"

text \<open>\<^verbatim>\<open>LoadingTextHistory\<close> (main.go, handleMenuSelection): recalling the past, as UTF-8 bytes.\<close>

definition LoadingTextHistory :: string where
  "LoadingTextHistory =
    [CHR 0xD0, CHR 0x92, CHR 0xD1, CHR 0x81, CHR 0xD0, CHR 0xBF, CHR 0xD0, CHR 0xBE, CHR 0xD0,
     CHR 0xBC, CHR 0xD0, CHR 0xB8, CHR 0xD0, CHR 0xBD, CHR 0xD0, CHR 0xB0, CHR 0xD0, CHR 0xB5,
     CHR 0xD0, CHR 0xBC, CHR '' '', CHR 0xD0, CHR 0xB1, CHR 0xD1, CHR 0x8B, CHR 0xD0, CHR 0xBB,
     CHR 0xD0, CHR 0xBE, CHR 0xD0, CHR 0xB5, CHR ''.'', CHR ''.'', CHR ''.'']"

text \<open>\<^verbatim>\<open>LoadingTextSync\<close> (main.go, handleMenuSelection): synchronising the streams, as UTF-8 bytes.\<close>

definition LoadingTextSync :: string where
  "LoadingTextSync =
    [CHR 0xD0, CHR 0xA1, CHR 0xD0, CHR 0xB8, CHR 0xD0, CHR 0xBD, CHR 0xD1, CHR 0x85, CHR 0xD1,
     CHR 0x80, CHR 0xD0, CHR 0xBE, CHR 0xD0, CHR 0xBD, CHR 0xD0, CHR 0xB8, CHR 0xD0, CHR 0xB7,
     CHR 0xD0, CHR 0xB8, CHR 0xD1, CHR 0x80, CHR 0xD1, CHR 0x83, CHR 0xD1, CHR 0x8E, CHR '' '',
     CHR 0xD0, CHR 0xBF, CHR 0xD0, CHR 0xBE, CHR 0xD1, CHR 0x82, CHR 0xD0, CHR 0xBE, CHR 0xD0,
     CHR 0xBA, CHR 0xD0, CHR 0xB8, CHR ''.'', CHR ''.'', CHR ''.'']"

text \<open>\<^verbatim>\<open>LoadingTextCheckpoint\<close> (main.go, handleDescriptionInput): saving the vibe, as UTF-8 bytes.\<close>

definition LoadingTextCheckpoint :: string where
  "LoadingTextCheckpoint =
    [CHR 0xD0, CHR 0xA1, CHR 0xD0, CHR 0xB5, CHR 0xD0, CHR 0xB9, CHR 0xD0, CHR 0xB2, CHR 0xD0,
     CHR 0xBB, CHR 0xD1, CHR 0x8E, CHR '' '', CHR 0xD0, CHR 0xB2, CHR 0xD0, CHR 0xB0, CHR 0xD0,
     CHR 0xB9, CHR 0xD0, CHR 0xB1, CHR ''.'', CHR ''.'', CHR ''.'']"

text \<open>\<^verbatim>\<open>LoadingTextRollback\<close> (main.go, handleHistoryInput): bringing the old vibe back, as UTF-8 bytes.\<close>

definition LoadingTextRollback :: string where
  "LoadingTextRollback =
    [CHR 0xD0, CHR 0x92, CHR 0xD0, CHR 0xBE, CHR 0xD0, CHR 0xB7, CHR 0xD0, CHR 0xB2, CHR 0xD1,
     CHR 0x80, CHR 0xD0, CHR 0xB0, CHR 0xD1, CHR 0x89, CHR 0xD0, CHR 0xB0, CHR 0xD1, CHR 0x8E,
     CHR '' '', CHR 0xD1, CHR 0x81, CHR 0xD1, CHR 0x82, CHR 0xD0, CHR 0xB0, CHR 0xD1, CHR 0x80,
     CHR 0xD1, CHR 0x8B, CHR 0xD0, CHR 0xB9, CHR '' '', CHR 0xD0, CHR 0xB2, CHR 0xD0, CHR 0xB0,
     CHR 0xD0, CHR 0xB9, CHR 0xD0, CHR 0xB1, CHR ''.'', CHR ''.'', CHR ''.'']"

text \<open>\<^verbatim>\<open>DefaultDescription\<close> (main.go, handleDescriptionInput): save without a description, as UTF-8 bytes.\<close>

definition DefaultDescription :: string where
  "DefaultDescription =
    [CHR 0xD0, CHR 0xA1, CHR 0xD0, CHR 0xB5, CHR 0xD0, CHR 0xB9, CHR 0xD0, CHR 0xB2, CHR '' '',
     CHR 0xD0, CHR 0xB1, CHR 0xD0, CHR 0xB5, CHR 0xD0, CHR 0xB7, CHR '' '', CHR 0xD0, CHR 0xBE,
     CHR 0xD0, CHR 0xBF, CHR 0xD0, CHR 0xB8, CHR 0xD1, CHR 0x81, CHR 0xD0, CHR 0xB0, CHR 0xD0,
     CHR 0xBD, CHR 0xD0, CHR 0xB8, CHR 0xD1, CHR 0x8F]"

text \<open>\<^verbatim>\<open>CheckpointCreatedPrefix\<close> (service.go, CreateCheckpoint): moment recorded, as UTF-8 bytes.\<close>

definition CheckpointCreatedPrefix :: string where
  "CheckpointCreatedPrefix =
    [CHR 0xD0, CHR 0x9C, CHR 0xD0, CHR 0xBE, CHR 0xD0, CHR 0xBC, CHR 0xD0, CHR 0xB5, CHR 0xD0,
     CHR 0xBD, CHR 0xD1, CHR 0x82, CHR '' '', CHR 0xD0, CHR 0xB7, CHR 0xD0, CHR 0xB0, CHR 0xD1,
     CHR 0x84, CHR 0xD0, CHR 0xB8, CHR 0xD0, CHR 0xBA, CHR 0xD1, CHR 0x81, CHR 0xD0, CHR 0xB8,
     CHR 0xD1, CHR 0x80, CHR 0xD0, CHR 0xBE, CHR 0xD0, CHR 0xB2, CHR 0xD0, CHR 0xB0, CHR 0xD0,
     CHR 0xBD, CHR '':'', CHR '' '']"

text \<open>\<^verbatim>\<open>RollbackFailedPrefix\<close> (service.go, RollbackToCheckpoint): could not rewind, as UTF-8 bytes.\<close>

definition RollbackFailedPrefix :: string where
  "RollbackFailedPrefix =
    [CHR 0xD0, CHR 0x9D, CHR 0xD0, CHR 0xB5, CHR '' '', CHR 0xD1, CHR 0x83, CHR 0xD0, CHR 0xB4,
     CHR 0xD0, CHR 0xB0, CHR 0xD0, CHR 0xBB, CHR 0xD0, CHR 0xBE, CHR 0xD1, CHR 0x81, CHR 0xD1,
     CHR 0x8C, CHR '' '', CHR 0xD0, CHR 0xBF, CHR 0xD0, CHR 0xB5, CHR 0xD1, CHR 0x80, CHR 0xD0,
     CHR 0xB5, CHR 0xD0, CHR 0xBC, CHR 0xD0, CHR 0xBE, CHR 0xD1, CHR 0x82, CHR 0xD0, CHR 0xB0,
     CHR 0xD1, CHR 0x82, CHR 0xD1, CHR 0x8C, CHR '':'', CHR '' '']"

text \<open>\<^verbatim>\<open>RollbackDonePrefix\<close> (service.go, RollbackToCheckpoint): rewound successfully to the moment, as UTF-8 bytes.\<close>

definition RollbackDonePrefix :: string where
  "RollbackDonePrefix =
    [CHR 0xD0, CHR 0xA3, CHR 0xD1, CHR 0x81, CHR 0xD0, CHR 0xBF, CHR 0xD0, CHR 0xB5, CHR 0xD1,
     CHR 0x88, CHR 0xD0, CHR 0xBD, CHR 0xD0, CHR 0xBE, CHR '' '', CHR 0xD0, CHR 0xBF, CHR 0xD0,
     CHR 0xB5, CHR 0xD1, CHR 0x80, CHR 0xD0, CHR 0xB5, CHR 0xD0, CHR 0xBC, CHR 0xD0, CHR 0xBE,
     CHR 0xD1, CHR 0x82, CHR 0xD0, CHR 0xB0, CHR 0xD0, CHR 0xBB, CHR 0xD0, CHR 0xB8, CHR '' '',
     CHR 0xD0, CHR 0xBA, CHR '' '', CHR 0xD0, CHR 0xBC, CHR 0xD0, CHR 0xBE, CHR 0xD0, CHR 0xBC,
     CHR 0xD0, CHR 0xB5, CHR 0xD0, CHR 0xBD, CHR 0xD1, CHR 0x82, CHR 0xD1, CHR 0x83, CHR '':'',
     CHR '' '']"

section \<open>The Repository Gateway (internal/timekeeper/service.go)\<close>

text \<open>
  The version-control engine and the operating system are outside the repository. What a
  Gateway operation makes of them is modelled with the engine as a parameter: an
  \<open>Engine\<close> holds, for every call the Gateway makes, the answer the engine gives to
  that call, and every operation returns, next to its message, the calls it has made,
  in order. No operation makes the same call twice (the plain and the forced push are
  two calls), so one answer per call is every behaviour the engine can show.
\<close>

record Signature =
  Name :: string
  Email :: string
  When :: time

text \<open>What the Gateway reads of a commit object of the engine.\<close>

record GitCommit =
  CommitHash :: string
  CommitMessage :: string
  CommitAuthor :: Signature

datatype ResetMode = HardReset

datatype Call =
    CallGetwd
  | CallPlainOpen string
  | CallWorktree
  | CallRemote string
  | CallPull string
  | CallStatus
  | CallAdd string
  | CallCommit string Signature
  | CallPush string bool
  | CallHead
  | CallLog string
  | CallForEach
  | CallReset string ResetMode
  | CallPrintln string

text \<open>
  The answers: \<open>None\<close> is Go's \<^verbatim>\<open>nil\<close> error. \<open>Status_result\<close> is the answer of
  \<^verbatim>\<open>worktree.Status()\<close>, of which only \<^verbatim>\<open>IsClean()\<close> is read; \<open>Commit_result\<close> is the
  new commit's hash as \<^verbatim>\<open>String()\<close> prints it; \<open>Head_result\<close> the hash of the head;
  \<open>ForEach_commits\<close> the commits the log iterator passes to the callback, in its order
  (the history from the head), and \<open>ForEach_result\<close> the error the iteration ends with;
  \<open>Reset_result\<close> the answer to a hard reset, by the identifier; \<open>Now_Format\<close> is
  \<^verbatim>\<open>time.Now().Format("2006-01-02 15:04:05")\<close> and \<open>Now\<close> the \<^verbatim>\<open>time.Now()\<close> of a
  signature.
\<close>

record Engine =
  Getwd_result :: "error + string"
  PlainOpen_result :: "error option"
  Worktree_result :: "error option"
  Remote_result :: "error option"
  Pull_result :: "error option"
  Status_result :: "error + bool"
  Add_result :: "error option"
  Commit_result :: "error + string"
  Push_result :: "error option"
  ForcePush_result :: "error option"
  Head_result :: "error + string"
  Log_result :: "error option"
  ForEach_commits :: "GitCommit list"
  ForEach_result :: "error option"
  Reset_result :: "string \<Rightarrow> error option"
  Now_Format :: string
  Now :: time

text \<open>The calls that reach the remote, and the calls that change the repository.\<close>

fun is_network :: "Call \<Rightarrow> bool" where
  "is_network (CallPull _) = True"
| "is_network (CallPush _ _) = True"
| "is_network _ = False"

fun is_mutation :: "Call \<Rightarrow> bool" where
  "is_mutation (CallPull _) = True"
| "is_mutation (CallPush _ _) = True"
| "is_mutation (CallAdd _) = True"
| "is_mutation (CallCommit _ _) = True"
| "is_mutation (CallReset _ _) = True"
| "is_mutation _ = False"

subsection \<open>CreateCheckpoint\<close>

definition CreateCheckpoint :: "Engine \<Rightarrow> string \<Rightarrow> Msg \<times> Call list" where
  "CreateCheckpoint e description =
    (case Getwd_result e of
       Inl err \<Rightarrow> (ErrMsg err, [CallGetwd])
     | Inr pwd \<Rightarrow>
    (case PlainOpen_result e of
       Some err \<Rightarrow> (ErrMsg err, [CallGetwd, CallPlainOpen pwd])
     | None \<Rightarrow>
    (case Worktree_result e of
       Some err \<Rightarrow> (ErrMsg err, [CallGetwd, CallPlainOpen pwd, CallWorktree])
     | None \<Rightarrow>
    (case Add_result e of
       Some err \<Rightarrow>
         (ErrMsg (Wrapped ErrFailedToAddFiles err),
          [CallGetwd, CallPlainOpen pwd, CallWorktree, CallAdd ''.''])
     | None \<Rightarrow>
    (let author = \<lparr>Name = CheckpointAuthorName, Email = CheckpointAuthorEmail, When = Now e\<rparr>;
         calls = [CallGetwd, CallPlainOpen pwd, CallWorktree, CallAdd ''.'',
                  CallCommit description author]
     in case Commit_result e of
          Inl err \<Rightarrow> (ErrMsg (Wrapped ErrFailedToCreateCheckpoint err), calls)
        | Inr commit \<Rightarrow>
            (CheckpointCreatedMsg True (CheckpointCreatedPrefix @ truncateString 7 commit),
             calls))))))"

subsection \<open>LoadCheckpoints\<close>

text \<open>
  The callback of \<^verbatim>\<open>commitIter.ForEach\<close>, run on the commits in the iterator's order:
  every commit becomes a checkpoint, appended to the list; none is filtered out.
\<close>

fun ForEach :: "string \<Rightarrow> GitCommit list \<Rightarrow> Checkpoint list \<Rightarrow> Checkpoint list" where
  "ForEach currentHash [] checkpoints = checkpoints"
| "ForEach currentHash (commit # commits) checkpoints =
    ForEach currentHash commits
      (checkpoints @
       [\<lparr>Hash = CommitHash commit,
         Checkpoint.Message = CommitMessage commit,
         Author = Name (CommitAuthor commit),
         Date = When (CommitAuthor commit),
         IsCurrent = (CommitHash commit = currentHash)\<rparr>])"

definition LoadCheckpoints :: "Engine \<Rightarrow> Msg \<times> Call list" where
  "LoadCheckpoints e =
    (case Getwd_result e of
       Inl err \<Rightarrow> (ErrMsg err, [CallGetwd])
     | Inr pwd \<Rightarrow>
    (case PlainOpen_result e of
       Some err \<Rightarrow> (ErrMsg err, [CallGetwd, CallPlainOpen pwd])
     | None \<Rightarrow>
    (case Head_result e of
       Inl err \<Rightarrow> (ErrMsg err, [CallGetwd, CallPlainOpen pwd, CallHead])
     | Inr head \<Rightarrow>
    (case Log_result e of
       Some err \<Rightarrow> (ErrMsg err, [CallGetwd, CallPlainOpen pwd, CallHead, CallLog head])
     | None \<Rightarrow>
    (let calls = [CallGetwd, CallPlainOpen pwd, CallHead, CallLog head, CallForEach];
         checkpoints = ForEach head (ForEach_commits e) []
     in case ForEach_result e of
          Some err \<Rightarrow> (ErrMsg err, calls)
        | None \<Rightarrow> (CheckpointsLoadedMsg checkpoints, calls))))))"

subsection \<open>RollbackToCheckpoint\<close>

text \<open>
  The identifier is handed to the engine, which parses it (\<^verbatim>\<open>plumbing.NewHash\<close>) and
  resets hard to it; the Gateway does not look the identifier up itself.
\<close>

definition RollbackToCheckpoint :: "Engine \<Rightarrow> string \<Rightarrow> Msg \<times> Call list" where
  "RollbackToCheckpoint e hash =
    (case Getwd_result e of
       Inl err \<Rightarrow> (ErrMsg err, [CallGetwd])
     | Inr pwd \<Rightarrow>
    (case PlainOpen_result e of
       Some err \<Rightarrow> (ErrMsg err, [CallGetwd, CallPlainOpen pwd])
     | None \<Rightarrow>
    (case Worktree_result e of
       Some err \<Rightarrow> (ErrMsg err, [CallGetwd, CallPlainOpen pwd, CallWorktree])
     | None \<Rightarrow>
    (let calls = [CallGetwd, CallPlainOpen pwd, CallWorktree, CallReset hash HardReset]
     in case Reset_result e hash of
          Some err \<Rightarrow> (RollbackMsg False (RollbackFailedPrefix @ Error err), calls)
        | None \<Rightarrow> (RollbackMsg True (RollbackDonePrefix @ truncateString 7 hash), calls)))))"

subsection \<open>SyncWithRemote\<close>

text \<open>
  The pull stage (\<^verbatim>\<open>// First, try to pull from remote\<close>), from
  \<^verbatim>\<open>syncMsg := models.SyncMsg{Success: true}\<close> on: it ends with the error the operation
  returns at once, or with the \<^verbatim>\<open>syncMsg\<close> the push stage goes on with.
\<close>

definition sync_pull :: "Engine \<Rightarrow> (error + SyncMsg) \<times> Call list" where
  "sync_pull e =
    (let syncMsg = \<lparr>Success = True, Message = [], Pulled = False, Pushed = False,
                     Conflict = False\<rparr>;
         calls = [CallPrintln ''Pulling from remote...'', CallPull ''origin'']
     in case Pull_result e of
          None \<Rightarrow> (Inr (syncMsg\<lparr>Pulled := True, Message := ErrPullSuccess\<rparr>), calls)
        | Some pullErr \<Rightarrow>
            if pullErr = NoErrAlreadyUpToDate
            then (Inr (syncMsg\<lparr>Message := ErrAlreadyUpToDate, Pulled := False\<rparr>), calls)
            else
              (let calls1 = calls @ [CallPrintln ''Conflicts detected, forcing local changes...'',
                                     CallStatus]
               in case Status_result e of
                    Inl err \<Rightarrow> (Inl (Wrapped ErrFailedToGetStatus err), calls1)
                  | Inr isClean \<Rightarrow>
                      if \<not> isClean then
                        (let calls2 = calls1 @ [CallAdd ''.'']
                         in case Add_result e of
                              Some err \<Rightarrow> (Inl (Wrapped ErrFailedToAddChanges err), calls2)
                            | None \<Rightarrow>
                                (let timestamp = Now_Format e;
                                     commitMsg = ''Auto-resolve conflicts: '' @ timestamp;
                                     calls3 = calls2 @
                                       [CallCommit commitMsg
                                          \<lparr>Name = ConflictAuthorName,
                                           Email = ConflictAuthorEmail, When = Now e\<rparr>]
                                 in case Commit_result e of
                                      Inl err \<Rightarrow> (Inl (Wrapped ErrFailedToCommit err), calls3)
                                    | Inr _ \<Rightarrow>
                                        (Inr (syncMsg\<lparr>Conflict := True,
                                                Message := ErrConflictsDetected\<rparr>), calls3)))
                      else
                        (Inr (syncMsg\<lparr>Conflict := True, Message := ErrConflictsDetected\<rparr>),
                         calls1)))"

text \<open>The push stage (\<^verbatim>\<open>// Then, push to remote\<close>).\<close>

definition sync_push :: "Engine \<Rightarrow> SyncMsg \<Rightarrow> Msg \<times> Call list" where
  "sync_push e syncMsg =
    (let calls = [CallPrintln ''Pushing to remote...'', CallPush ''origin'' False]
     in case Push_result e of
          None \<Rightarrow>
            (SyncMsg (syncMsg\<lparr>Pushed := True,
                       Message := (if Message syncMsg = ErrAlreadyUpToDate then ErrPushSuccess
                                   else Message syncMsg @ '', pushed successfully'')\<rparr>),
             calls)
        | Some pushErr \<Rightarrow>
            if pushErr = NoErrAlreadyUpToDate
            then
              (SyncMsg (syncMsg\<lparr>Message := (if Message syncMsg = ErrAlreadyUpToDate
                                               then ErrAlreadyUpToDate
                                               else Message syncMsg @
                                                    '', already up to date on push''),
                          Pushed := False\<rparr>),
               calls)
            else
              (let calls1 = calls @ [CallPrintln ''Normal push failed, trying force push...'',
                                     CallPush ''origin'' True]
               in case ForcePush_result e of
                    Some forceErr \<Rightarrow> (ErrMsg (Wrapped ErrFailedToPush forceErr), calls1)
                  | None \<Rightarrow>
                      (SyncMsg (syncMsg\<lparr>Pushed := True,
                                 Message := (if Message syncMsg = ErrAlreadyUpToDate
                                             then ErrForcePushSuccess
                                             else Message syncMsg @
                                                  '', force pushed successfully'')\<rparr>),
                       calls1)))"

definition SyncWithRemote :: "Engine \<Rightarrow> Msg \<times> Call list" where
  "SyncWithRemote e =
    (case Getwd_result e of
       Inl err \<Rightarrow> (ErrMsg err, [CallGetwd])
     | Inr pwd \<Rightarrow>
    (case PlainOpen_result e of
       Some err \<Rightarrow> (ErrMsg (Wrapped ErrFailedToOpenRepo err), [CallGetwd, CallPlainOpen pwd])
     | None \<Rightarrow>
    (case Worktree_result e of
       Some err \<Rightarrow>
         (ErrMsg (Wrapped ErrFailedToGetWorktree err),
          [CallGetwd, CallPlainOpen pwd, CallWorktree])
     | None \<Rightarrow>
    (let calls = [CallGetwd, CallPlainOpen pwd, CallWorktree, CallRemote ''origin'']
     in case Remote_result e of
          Some err \<Rightarrow>
            (SyncMsg \<lparr>Success = False, Message = ErrNoRemote, Pulled = False, Pushed = False,
                      Conflict = False\<rparr>,
             calls)
        | None \<Rightarrow>
            (case sync_pull e of
               (Inl err, pulling) \<Rightarrow> (ErrMsg err, calls @ pulling)
             | (Inr syncMsg, pulling) \<Rightarrow>
                 (case sync_push e syncMsg of
                    (msg, pushing) \<Rightarrow> (msg, calls @ pulling @ pushing)))))))"

section \<open>The Controller (main.go)\<close>

text \<open>
  A \<^verbatim>\<open>tea.Cmd\<close> is the operation the event loop runs next; \<open>CmdNil\<close> is \<^verbatim>\<open>nil\<close> (nothing
  is scheduled), \<open>CmdQuit\<close> is \<^verbatim>\<open>tea.Quit\<close> (the loop stops), and the others name the
  Gateway operation or the closure the handler returns.
\<close>

datatype Cmd =
    CmdNil
  | CmdQuit
  | CmdLoadStatus
  | CmdInitGit
  | CmdDescriptionMode "string list"
  | CmdLoadCheckpoints
  | CmdSyncWithRemote
  | CmdCreateCheckpoint string
  | CmdRollbackToCheckpoint string

text \<open>
  Every handler returns the new state and the command, or \<open>None\<close> where the Go code
  panics (an index out of range).
\<close>

definition handleMenuSelection :: "Model \<Rightarrow> (Model \<times> Cmd) option" where
  "handleMenuSelection m =
    (let menuItems = Model_GetMenuItems m in
     if Selected m \<ge> int (length menuItems) then Some (m, CmdNil)
     else if Selected m < 0 then None
     else
       (let selectedItem = menuItems ! nat (Selected m) in
        if selectedItem = MenuInitGit then
          Some (m\<lparr>Loading := True, LoadingText := LoadingTextInit\<rparr>, CmdInitGit)
        else if selectedItem = MenuCreateCheckpoint then
          Some (m\<lparr>Loading := True, LoadingText := LoadingTextDescription\<rparr>,
                CmdDescriptionMode DefaultSuggestions)
        else if selectedItem = MenuViewHistory then
          Some (m\<lparr>Loading := True, LoadingText := LoadingTextHistory\<rparr>, CmdLoadCheckpoints)
        else if selectedItem = MenuRollback then
          Some (m\<lparr>Loading := True, LoadingText := LoadingTextHistory\<rparr>, CmdLoadCheckpoints)
        else if selectedItem = MenuSync then
          Some (m\<lparr>Loading := True, LoadingText := LoadingTextSync\<rparr>, CmdSyncWithRemote)
        else Some (m, CmdNil)))"

definition handleDescriptionInput :: "Model \<Rightarrow> KeyMsg \<Rightarrow> (Model \<times> Cmd) option" where
  "handleDescriptionInput m msg =
    (if length (Runes msg) = 1 \<and> hd (Runes msg) \<ge> 0x31 \<and> hd (Runes msg) \<le> 0x39
        \<and> hd (Runes msg) - 0x31 < int (length (Suggestions m))
     then Some (m\<lparr>DescriptionInput := Suggestions m ! nat (hd (Runes msg) - 0x31)\<rparr>, CmdNil)
     else
       (case Type msg of
          KeyEscape \<Rightarrow> Some (m\<lparr>DescriptionMode := False, DescriptionInput := []\<rparr>, CmdNil)
        | KeyEnter \<Rightarrow>
            (let description =
                   (if DescriptionInput m = [] then DefaultDescription else DescriptionInput m)
             in Some (m\<lparr>DescriptionMode := False, Loading := True,
                        LoadingText := LoadingTextCheckpoint\<rparr>,
                      CmdCreateCheckpoint description))
        | KeyBackspace \<Rightarrow>
            (if length (DescriptionInput m) > 0
             then Some (m\<lparr>DescriptionInput :=
                             take (length (DescriptionInput m) - 1) (DescriptionInput m)\<rparr>,
                        CmdNil)
             else Some (m, CmdNil))
        | KeyRunes \<Rightarrow>
            (case Runes msg of
               [] \<Rightarrow> None
             | r # _ \<Rightarrow>
                 if r < 0x31 \<or> r > 0x39
                 then Some (m\<lparr>DescriptionInput :=
                                 DescriptionInput m @ string_of_runes (Runes msg)\<rparr>, CmdNil)
                 else Some (m, CmdNil))
        | _ \<Rightarrow>
            if String msg = ''ctrl+c'' then Some (m\<lparr>Quitting := True\<rparr>, CmdQuit)
            else Some (m, CmdNil)))"

definition handleHistoryInput :: "Model \<Rightarrow> KeyMsg \<Rightarrow> (Model \<times> Cmd) option" where
  "handleHistoryInput m msg =
    (if Type msg = KeyEscape then Some (m\<lparr>HistoryMode := False\<rparr>, CmdNil)
     else if Type msg = KeyBackspace then Some (m\<lparr>HistoryMode := False\<rparr>, CmdNil)
     else if String msg = ''ctrl+c'' then Some (m\<lparr>Quitting := True\<rparr>, CmdQuit)
     else if String msg = ''q'' then Some (m\<lparr>Quitting := True\<rparr>, CmdQuit)
     else if String msg = ''esc'' \<or> String msg = ''escape''
       then Some (m\<lparr>HistoryMode := False\<rparr>, CmdNil)
     else if String msg = ''up'' \<or> String msg = ''k'' then
       (if HistorySelected m > 0
        then Some (m\<lparr>HistorySelected := HistorySelected m - 1\<rparr>, CmdNil)
        else Some (m, CmdNil))
     else if String msg = ''down'' \<or> String msg = ''j'' then
       (if HistorySelected m < int (length (Checkpoints m)) - 1
        then Some (m\<lparr>HistorySelected := HistorySelected m + 1\<rparr>, CmdNil)
        else Some (m, CmdNil))
     else if String msg = ''enter'' \<or> String msg = '' '' then
       (if HistorySelected m < int (length (Checkpoints m)) then
          (if HistorySelected m < 0 then None
           else
             (let checkpoint = Checkpoints m ! nat (HistorySelected m) in
              Some (m\<lparr>Loading := True, LoadingText := LoadingTextRollback\<rparr>,
                    CmdRollbackToCheckpoint (Hash checkpoint))))
        else Some (m, CmdNil))
     else Some (m, CmdNil))"

text \<open>\<^verbatim>\<open>// Clear sync message when user presses any key\<close>\<close>

definition clearSyncMessage :: "Model \<Rightarrow> Model" where
  "clearSyncMessage m =
    (if ShowSyncMessage m then m\<lparr>ShowSyncMessage := False, SyncMessage := []\<rparr> else m)"

definition handleKeyMsg :: "Model \<Rightarrow> KeyMsg \<Rightarrow> (Model \<times> Cmd) option" where
  "handleKeyMsg m0 msg =
    (if Loading m0 then Some (m0, CmdNil)
     else
       (let m = clearSyncMessage m0 in
        if DescriptionMode m then handleDescriptionInput m msg
        else if HistoryMode m then handleHistoryInput m msg
        else if Type msg = KeyEscape then Some (m\<lparr>Quitting := True\<rparr>, CmdQuit)
        else if String msg = ''ctrl+c'' \<or> String msg = ''q''
          then Some (m\<lparr>Quitting := True\<rparr>, CmdQuit)
        else if String msg = ''esc'' \<or> String msg = ''escape''
          then Some (m\<lparr>Quitting := True\<rparr>, CmdQuit)
        else if String msg = ''up'' \<or> String msg = ''k'' then
          (if Selected m > 0 then Some (m\<lparr>Selected := Selected m - 1\<rparr>, CmdNil)
           else Some (m, CmdNil))
        else if String msg = ''down'' \<or> String msg = ''j'' then
          (if Selected m < int (length GetMenuItems) - 1
           then Some (m\<lparr>Selected := Selected m + 1\<rparr>, CmdNil)
           else Some (m, CmdNil))
        else if String msg = ''enter'' \<or> String msg = '' '' then handleMenuSelection m
        else if String msg = ''c'' then handleMenuSelection (m\<lparr>Selected := 0\<rparr>)
        else if String msg = ''h'' then handleMenuSelection (m\<lparr>Selected := 1\<rparr>)
        else if String msg = ''r'' then handleMenuSelection (m\<lparr>Selected := 2\<rparr>)
        else if String msg = ''s'' then handleMenuSelection (m\<lparr>Selected := 3\<rparr>)
        else Some (m, CmdNil)))"

text \<open>
  In the case of \<open>GitNotInitializedMsg\<close> the state gets the error
  \<^verbatim>\<open>fmt.Errorf(msg.Message)\<close>: the message's text is the format.
\<close>

definition Update :: "Model \<Rightarrow> Msg \<Rightarrow> (Model \<times> Cmd) option" where
  "Update m msg =
    (case msg of
       GitStatusMsg st \<Rightarrow> Some (m\<lparr>Status := Some st, Loading := False\<rparr>, CmdNil)
     | ErrMsg err \<Rightarrow> Some (m\<lparr>Err := Some (Returned err), Loading := False\<rparr>, CmdNil)
     | StatusMsg _ \<Rightarrow> Some (m\<lparr>Loading := False\<rparr>, CmdNil)
     | GitInitializedMsg \<Rightarrow>
         Some (m\<lparr>GitNotInitialized := False, Err := None, Loading := False\<rparr>, CmdLoadStatus)
     | CheckpointCreatedMsg success _ \<Rightarrow>
         Some (m\<lparr>Loading := False\<rparr>, if success then CmdLoadStatus else CmdNil)
     | CheckpointsLoadedMsg checkpoints \<Rightarrow>
         Some (m\<lparr>Checkpoints := checkpoints, HistoryMode := True, HistorySelected := 0,
                 Loading := False\<rparr>, CmdNil)
     | RollbackMsg success _ \<Rightarrow>
         Some (m\<lparr>Loading := False, HistoryMode := False\<rparr>,
               if success then CmdLoadStatus else CmdNil)
     | DescriptionModeMsg suggestions \<Rightarrow>
         Some (m\<lparr>Loading := False, DescriptionMode := True, DescriptionInput := [],
                 Suggestions := suggestions\<rparr>, CmdNil)
     | GitNotInitializedMsg message \<Rightarrow>
         Some (m\<lparr>GitNotInitialized := True, Err := Some (Errorf message),
                 Loading := False\<rparr>, CmdNil)
     | SyncMsg sync \<Rightarrow>
         if Success sync then Some (m\<lparr>Loading := False\<rparr>, CmdLoadStatus)
         else Some (m\<lparr>Loading := False, SyncMessage := SyncMsg.Message sync,
                      ShowSyncMessage := True\<rparr>, CmdNil)
     | KeyMsg key \<Rightarrow> handleKeyMsg m key
     | OtherMsg \<Rightarrow> Some (m, CmdNil))"

text \<open>
  The event loop on a sequence of messages, one at a time: the state after the last one
  and the commands returned on the way; a panic ends it with \<open>None\<close>.
\<close>

fun run :: "Model \<Rightarrow> Msg list \<Rightarrow> (Model \<times> Cmd list) option" where
  "run m [] = Some (m, [])"
| "run m (msg # msgs) =
    (case Update m msg of
       None \<Rightarrow> None
     | Some (m', cmd) \<Rightarrow>
         (case run m' msgs of
            None \<Rightarrow> None
          | Some (m'', cmds) \<Rightarrow> Some (m'', cmd # cmds)))"

text \<open>The state \<^verbatim>\<open>main\<close> starts with: \<^verbatim>\<open>models.Model{Selected: 0}\<close>.\<close>

definition initial_Model :: Model where
  "initial_Model =
    \<lparr>Status = None, Err = None, Selected = 0, Quitting = False, Checkpoints = [],
     HistoryMode = False, HistorySelected = 0, Loading = False, LoadingText = [],
     SyncMessage = [], ShowSyncMessage = False, GitNotInitialized = False,
     DescriptionMode = False, DescriptionInput = [], Suggestions = []\<rparr>"

section \<open>Vocabulary of the properties\<close>

text \<open>A fatal result: the operation is reported as an error, not as an outcome.\<close>

fun is_ErrMsg :: "Msg \<Rightarrow> bool" where
  "is_ErrMsg (ErrMsg _) = True"
| "is_ErrMsg _ = False"

text \<open>The overall success flag of a synchronisation outcome.\<close>

fun sync_success :: "Msg \<Rightarrow> bool" where
  "sync_success (SyncMsg s) = Success s"
| "sync_success _ = False"

text \<open>The plain push is rejected (not "already up to date") and the forced push fails too.\<close>

definition forced_push_fails :: "Engine \<Rightarrow> bool" where
  "forced_push_fails e =
    (case Push_result e of
       None \<Rightarrow> False
     | Some pushErr \<Rightarrow>
         if pushErr = NoErrAlreadyUpToDate then False
         else (case ForcePush_result e of None \<Rightarrow> False | Some _ \<Rightarrow> True))"

text \<open>The staging fails, or the staging succeeds and the commit fails.\<close>

definition staging_or_commit_fails :: "Engine \<Rightarrow> bool" where
  "staging_or_commit_fails e =
    (case Add_result e of
       Some _ \<Rightarrow> True
     | None \<Rightarrow> (case Commit_result e of Inl _ \<Rightarrow> True | Inr _ \<Rightarrow> False))"

text \<open>
  The commit of the conflict resolution: the fixed identity, and a message that embeds
  the formatted time of the resolution.
\<close>

definition conflict_commit :: "Engine \<Rightarrow> Call" where
  "conflict_commit e =
    CallCommit (''Auto-resolve conflicts: '' @ Now_Format e)
      \<lparr>Name = ConflictAuthorName, Email = ConflictAuthorEmail, When = Now e\<rparr>"

subsection \<open>Concrete engines\<close>

text \<open>A repository with no remote named \<^verbatim>\<open>origin\<close>.\<close>

definition engine_no_remote :: Engine where
  "engine_no_remote =
    \<lparr>Getwd_result = Inr ''/work'', PlainOpen_result = None, Worktree_result = None,
     Remote_result = Some (ErrorString ''remote not found''), Pull_result = None,
     Status_result = Inr True, Add_result = None, Commit_result = Inr ''0123456789abcdef'',
     Push_result = None, ForcePush_result = None, Head_result = Inr ''0123456789abcdef'',
     Log_result = None, ForEach_commits = [], ForEach_result = None,
     Reset_result = (\<lambda>_. None),
     Now_Format = ''2024-05-01 12:00:00'', Now = 1714564800\<rparr>"

text \<open>
  Diverged histories and a dirty working tree: the pull fails, staging and commit succeed,
  the plain push is rejected and the forced push goes through.
\<close>

definition engine_conflict :: Engine where
  "engine_conflict =
    \<lparr>Getwd_result = Inr ''/work'', PlainOpen_result = None, Worktree_result = None,
     Remote_result = None, Pull_result = Some (ErrorString ''non-fast-forward update''),
     Status_result = Inr False, Add_result = None, Commit_result = Inr ''89abcdef01234567'',
     Push_result = Some (ErrorString ''non-fast-forward update''), ForcePush_result = None,
     Head_result = Inr ''89abcdef01234567'', Log_result = None, ForEach_commits = [],
     ForEach_result = None, Reset_result = (\<lambda>_. None),
     Now_Format = ''2024-05-01 12:00:00'', Now = 1714564800\<rparr>"

text \<open>The same, but the remote refuses the forced push as well.\<close>

definition engine_force_rejected :: Engine where
  "engine_force_rejected =
    engine_conflict\<lparr>ForcePush_result := Some (ErrorString ''authentication required'')\<rparr>"

text \<open>The same as \<open>engine_conflict\<close>, but the staging of the changes fails.\<close>

definition engine_staging_fails :: Engine where
  "engine_staging_fails =
    engine_conflict\<lparr>Add_result := Some (ErrorString ''permission denied'')\<rparr>"

text \<open>
  A repository with one checkpoint, whose engine resets to the commits of its history and
  to nothing else; the next commit gets the hash \<open>4f2a9c0...\<close>.
\<close>

definition first_commit :: GitCommit where
  "first_commit =
    \<lparr>CommitHash = ''1111111111111111111111111111111111111111'',
     CommitMessage = ''first'',
     CommitAuthor = \<lparr>Name = CheckpointAuthorName, Email = CheckpointAuthorEmail,
                     When = 1714560000\<rparr>\<rparr>"

definition engine_work :: Engine where
  "engine_work =
    \<lparr>Getwd_result = Inr ''/work'', PlainOpen_result = None, Worktree_result = None,
     Remote_result = None, Pull_result = None, Status_result = Inr False, Add_result = None,
     Commit_result = Inr ''4f2a9c01d3e5b7a6c8d0e1f2a3b4c5d6e7f80912'',
     Push_result = None, ForcePush_result = None,
     Head_result = Inr ''1111111111111111111111111111111111111111'',
     Log_result = None, ForEach_commits = [first_commit], ForEach_result = None,
     Reset_result =
       (\<lambda>h. if h \<in> CommitHash ` set [first_commit] then None
            else Some (ErrorString ''object not found'')),
     Now_Format = ''2024-05-01 12:00:00'', Now = 1714564800\<rparr>"

text \<open>
  The same repository, with the engine as it answers an identifier that is no hexadecimal
  hash: it parses \<open>''not-a-hash''\<close> to the zero hash and resets hard to the head, which
  succeeds (and discards the uncommitted work).
\<close>

definition engine_zero_hash :: Engine where
  "engine_zero_hash =
    engine_work
      \<lparr>Reset_result :=
         (\<lambda>h. if h \<in> CommitHash ` set [first_commit] \<or> h = ''not-a-hash'' then None
              else Some (ErrorString ''object not found''))\<rparr>"

text \<open>
  The same repository after the checkpoint \<open>''fix the parser''\<close> was committed there: the
  new commit is the head, and the log from the head starts with it.
\<close>

definition engine_after_commit :: Engine where
  "engine_after_commit =
    engine_work
      \<lparr>Head_result := Inr ''4f2a9c01d3e5b7a6c8d0e1f2a3b4c5d6e7f80912'',
       ForEach_commits :=
         [\<lparr>CommitHash = ''4f2a9c01d3e5b7a6c8d0e1f2a3b4c5d6e7f80912'',
           CommitMessage = ''fix the parser'',
           CommitAuthor = \<lparr>Name = CheckpointAuthorName, Email = CheckpointAuthorEmail,
                           When = 1714564800\<rparr>\<rparr>,
          first_commit]\<rparr>"

subsection \<open>The engine's side of the round trip\<close>

text \<open>
  What the round trip of a checkpoint asks of the engine: the head is the commit \<open>h\<close>, and
  the log from the head starts with that commit, carrying the message \<open>msg\<close>.
\<close>

definition log_starts_with :: "string \<Rightarrow> string \<Rightarrow> Engine \<Rightarrow> bool" where
  "log_starts_with h msg e =
    (Head_result e = Inr h
     \<and> (case ForEach_commits e of
          [] \<Rightarrow> False
        | c # _ \<Rightarrow> CommitHash c = h \<and> CommitMessage c = msg))"

text \<open>The checkpoint the callback of \<^verbatim>\<open>ForEach\<close> makes of one commit.\<close>

definition to_checkpoint :: "string \<Rightarrow> GitCommit \<Rightarrow> Checkpoint" where
  "to_checkpoint currentHash commit =
    \<lparr>Hash = CommitHash commit, Checkpoint.Message = CommitMessage commit,
     Author = Name (CommitAuthor commit), Date = When (CommitAuthor commit),
     IsCurrent = (CommitHash commit = currentHash)\<rparr>"

subsection \<open>Concrete states and keys\<close>

definition m_loading :: Model where
  "m_loading = initial_Model\<lparr>Loading := True, LoadingText := LoadingTextSync\<rparr>"

definition m_uninitialized :: Model where
  "m_uninitialized = initial_Model\<lparr>GitNotInitialized := True\<rparr>"

definition m_description :: Model where
  "m_description = initial_Model\<lparr>DescriptionMode := True, Suggestions := DefaultSuggestions\<rparr>"

definition key_ctrl_c :: KeyMsg where
  "key_ctrl_c = \<lparr>Type = KeyCtrlC, Runes = [], String = ''ctrl+c''\<rparr>"

definition key_down :: KeyMsg where
  "key_down = \<lparr>Type = KeyDown, Runes = [], String = ''down''\<rparr>"

definition key_backspace :: KeyMsg where
  "key_backspace = \<lparr>Type = KeyBackspace, Runes = [], String = ''backspace''\<rparr>"

text \<open>The key of one typed character: its rune, rendered as that character.\<close>

definition key_rune :: "rune \<Rightarrow> KeyMsg" where
  "key_rune r = \<lparr>Type = KeyRunes, Runes = [r], String = string_of_runes [r]\<rparr>"

subsection \<open>Selection indices in range\<close>

text \<open>
  The menu index is an index of the full menu of four entries, and the history index an
  index of the loaded list (0 when the list is empty).
\<close>

definition index_ok :: "Model \<Rightarrow> bool" where
  "index_ok m =
    (0 \<le> Selected m \<and> Selected m < int (length GetMenuItems)
     \<and> 0 \<le> HistorySelected m
     \<and> (HistorySelected m < int (length (Checkpoints m))
        \<or> (Checkpoints m = [] \<and> HistorySelected m = 0)))"

text \<open>A key of type \<open>KeyRunes\<close> carries at least one rune.\<close>

fun well_formed :: "Msg \<Rightarrow> bool" where
  "well_formed (KeyMsg key) = (if Type key = KeyRunes then Runes key \<noteq> [] else True)"
| "well_formed _ = True"

definition key_enter :: KeyMsg where
  "key_enter = \<lparr>Type = KeyEnter, Runes = [], String = ''enter''\<rparr>"

section \<open>The synchronisation protocol\<close>

subsection \<open>Lemmas on the two stages\<close>

lemma ErrConflictsDetected_not_up_to_date: "ErrConflictsDetected \<noteq> ErrAlreadyUpToDate"
  by (simp add: ErrConflictsDetected_def ErrAlreadyUpToDate_def)

lemma SyncWithRemote_stages:
  assumes "Getwd_result e = Inr pwd" and "PlainOpen_result e = None"
    and "Worktree_result e = None" and "Remote_result e = None"
  shows "SyncWithRemote e =
    (case fst (sync_pull e) of
       Inl err \<Rightarrow>
         (ErrMsg err,
          [CallGetwd, CallPlainOpen pwd, CallWorktree, CallRemote ''origin'']
          @ snd (sync_pull e))
     | Inr syncMsg \<Rightarrow>
         (fst (sync_push e syncMsg),
          [CallGetwd, CallPlainOpen pwd, CallWorktree, CallRemote ''origin'']
          @ snd (sync_pull e) @ snd (sync_push e syncMsg)))"
  using assms
  by (cases "sync_pull e")
     (auto simp: SyncWithRemote_def Let_def split: prod.splits sum.splits)

lemma sync_pull_no_push: "filter (\<lambda>c. c = CallPush r f) (snd (sync_pull e)) = []"
  by (simp add: sync_pull_def Let_def split: option.splits sum.splits)

lemma sync_pull_conflict:
  assumes "Pull_result e = Some pullErr" and "pullErr \<noteq> NoErrAlreadyUpToDate"
    and "Status_result e = Inr False"
  shows "sync_pull e =
    (case Add_result e of
       Some err \<Rightarrow>
         (Inl (Wrapped ErrFailedToAddChanges err),
          [CallPrintln ''Pulling from remote...'', CallPull ''origin'',
           CallPrintln ''Conflicts detected, forcing local changes...'', CallStatus,
           CallAdd ''.''])
     | None \<Rightarrow>
         (case Commit_result e of
            Inl err \<Rightarrow> Inl (Wrapped ErrFailedToCommit err)
          | Inr h \<Rightarrow> Inr \<lparr>Success = True, Message = ErrConflictsDetected, Pulled = False,
                         Pushed = False, Conflict = True\<rparr>,
          [CallPrintln ''Pulling from remote...'', CallPull ''origin'',
           CallPrintln ''Conflicts detected, forcing local changes...'', CallStatus,
           CallAdd ''.'', conflict_commit e]))"
  using assms
  by (simp add: sync_pull_def conflict_commit_def Let_def split: option.splits sum.splits)

lemma sync_push_fatal: "is_ErrMsg (fst (sync_push e sm)) = forced_push_fails e"
  by (simp add: sync_push_def forced_push_fails_def Let_def split: option.splits)

lemma sync_push_keeps:
  assumes "fst (sync_push e sm) = SyncMsg out"
  shows "Success out = Success sm \<and> Conflict out = Conflict sm \<and> Pulled out = Pulled sm"
  using assms by (auto simp: sync_push_def Let_def split: option.splits if_splits)

lemma sync_push_notice:
  assumes "fst (sync_push e sm) = SyncMsg out"
    and "SyncMsg.Message sm \<noteq> ErrAlreadyUpToDate"
  shows "take (length (SyncMsg.Message sm)) (SyncMsg.Message out) = SyncMsg.Message sm"
  using assms by (auto simp: sync_push_def Let_def split: option.splits if_splits)

subsection \<open>No remote\<close>

text \<open>
  Claim C1, as the code has it. When the repository and its worktree open and no remote
  named \<^verbatim>\<open>origin\<close> is configured, \<^verbatim>\<open>SyncWithRemote\<close> calls neither pull nor push and
  returns an outcome, not an error: \<open>Pulled\<close> and \<open>Pushed\<close> are false and the notice is
  the "local only" text. The success flag of that outcome is false, not true: it is what
  makes \<^verbatim>\<open>Update\<close> store the notice and show it instead of scheduling a status refresh.
\<close>

theorem sync_no_remote:
  assumes "Getwd_result e = Inr pwd" and "PlainOpen_result e = None"
    and "Worktree_result e = None" and "Remote_result e = Some err"
  shows "SyncWithRemote e =
           (SyncMsg \<lparr>Success = False, Message = ErrNoRemote, Pulled = False, Pushed = False,
                     Conflict = False\<rparr>,
            [CallGetwd, CallPlainOpen pwd, CallWorktree, CallRemote ''origin''])
         \<and> filter is_network (snd (SyncWithRemote e)) = []
         \<and> Update m (fst (SyncWithRemote e)) =
             Some (m\<lparr>Loading := False, SyncMessage := ErrNoRemote, ShowSyncMessage := True\<rparr>,
                   CmdNil)"
  using assms by (simp add: SyncWithRemote_def Update_def)

text \<open>The theorem of C1 at the engine with no remote.\<close>

theorem sync_no_remote_witness:
  "Remote_result engine_no_remote = Some (ErrorString ''remote not found'')
   \<and> SyncWithRemote engine_no_remote =
       (SyncMsg \<lparr>Success = False, Message = ErrNoRemote, Pulled = False, Pushed = False,
                 Conflict = False\<rparr>,
        [CallGetwd, CallPlainOpen ''/work'', CallWorktree, CallRemote ''origin''])
   \<and> filter is_network (snd (SyncWithRemote engine_no_remote)) = []"
proof -
  have "Getwd_result engine_no_remote = Inr ''/work''"
    and "PlainOpen_result engine_no_remote = None"
    and "Worktree_result engine_no_remote = None"
    and "Remote_result engine_no_remote = Some (ErrorString ''remote not found'')"
    by (simp_all add: engine_no_remote_def)
  from sync_no_remote[OF this, of initial_Model]
  show ?thesis by (simp add: engine_no_remote_def)
qed

text \<open>
  C1 as stated fails: with no remote configured the outcome's success flag is false.
\<close>

theorem sync_no_remote_success_counterexample:
  "Remote_result engine_no_remote = Some (ErrorString ''remote not found'')
   \<and> fst (SyncWithRemote engine_no_remote) =
       SyncMsg \<lparr>Success = False, Message = ErrNoRemote, Pulled = False, Pushed = False,
                Conflict = False\<rparr>
   \<and> \<not> sync_success (fst (SyncWithRemote engine_no_remote))"
  by (simp add: SyncWithRemote_def engine_no_remote_def)

subsection \<open>A failed pull on a dirty working tree\<close>

text \<open>
  Claim C2, as the code has it. Let the repository, its worktree and the remote open, the
  pull fail with an error other than "already up to date", and the recomputed status be
  not clean. Then \<^verbatim>\<open>SyncWithRemote\<close> stages all changes; if the staging succeeds it asks
  for a commit by the fixed conflict-resolution identity whose message embeds the
  formatted time; if neither fails, the pull stage ends with \<open>Conflict\<close> set and the
  "conflicts resolved automatically" notice. The result is an error exactly when the
  staging or the commit fails or, later, the forced push fails: never for the failed
  pull as such. Every outcome it returns has \<open>Success\<close> and \<open>Conflict\<close> set and a notice
  that begins with the "conflicts resolved automatically" text.
\<close>

theorem sync_conflict_auto_resolved:
  assumes "Getwd_result e = Inr pwd" and "PlainOpen_result e = None"
    and "Worktree_result e = None" and "Remote_result e = None"
    and "Pull_result e = Some pullErr" and "pullErr \<noteq> NoErrAlreadyUpToDate"
    and "Status_result e = Inr False"
  shows "CallAdd ''.'' \<in> set (snd (SyncWithRemote e))
    \<and> (Add_result e = None \<longrightarrow> conflict_commit e \<in> set (snd (SyncWithRemote e)))
    \<and> (\<not> staging_or_commit_fails e \<longrightarrow>
          fst (sync_pull e) = Inr \<lparr>Success = True, Message = ErrConflictsDetected,
                                   Pulled = False, Pushed = False, Conflict = True\<rparr>)
    \<and> is_ErrMsg (fst (SyncWithRemote e)) = (staging_or_commit_fails e \<or> forced_push_fails e)
    \<and> (\<forall>out. fst (SyncWithRemote e) = SyncMsg out \<longrightarrow>
           Success out \<and> Conflict out \<and> \<not> Pulled out
           \<and> take (length ErrConflictsDetected) (SyncMsg.Message out) = ErrConflictsDetected)"
proof -
  let ?sm = "\<lparr>Success = True, Message = ErrConflictsDetected, Pulled = False,
              Pushed = False, Conflict = True\<rparr>"
  note pull = sync_pull_conflict[OF assms(5-7)]
  note stages = SyncWithRemote_stages[OF assms(1-4)]
  have a: "CallAdd ''.'' \<in> set (snd (SyncWithRemote e))"
    by (simp add: stages pull split: option.splits sum.splits)
  have b: "Add_result e = None \<longrightarrow> conflict_commit e \<in> set (snd (SyncWithRemote e))"
    by (simp add: stages pull split: option.splits sum.splits)
  have c: "\<not> staging_or_commit_fails e \<longrightarrow> fst (sync_pull e) = Inr ?sm"
    by (simp add: pull staging_or_commit_fails_def split: option.splits sum.splits)
  have d: "is_ErrMsg (fst (SyncWithRemote e))
           = (staging_or_commit_fails e \<or> forced_push_fails e)"
    by (simp add: stages pull staging_or_commit_fails_def sync_push_fatal
          split: option.splits sum.splits)
  have e: "Success out \<and> Conflict out \<and> \<not> Pulled out
           \<and> take (length ErrConflictsDetected) (SyncMsg.Message out) = ErrConflictsDetected"
    if out: "fst (SyncWithRemote e) = SyncMsg out" for out
  proof -
    from out have push: "fst (sync_push e ?sm) = SyncMsg out"
      by (simp add: stages pull split: option.splits sum.splits)
    from sync_push_keeps[OF push] sync_push_notice[OF push]
      ErrConflictsDetected_not_up_to_date
    show ?thesis by simp
  qed
  from a b c d e show ?thesis by blast
qed

text \<open>The theorem of C2 at the engine with diverged histories and a dirty tree.\<close>

theorem sync_conflict_auto_resolved_witness:
  "Pull_result engine_conflict = Some (ErrorString ''non-fast-forward update'')
   \<and> Status_result engine_conflict = Inr False
   \<and> CallAdd ''.'' \<in> set (snd (SyncWithRemote engine_conflict))
   \<and> conflict_commit engine_conflict \<in> set (snd (SyncWithRemote engine_conflict))
   \<and> \<not> is_ErrMsg (fst (SyncWithRemote engine_conflict))"
proof -
  have "Getwd_result engine_conflict = Inr ''/work''"
    and "PlainOpen_result engine_conflict = None"
    and "Worktree_result engine_conflict = None"
    and "Remote_result engine_conflict = None"
    and "Pull_result engine_conflict = Some (ErrorString ''non-fast-forward update'')"
    and "ErrorString ''non-fast-forward update'' \<noteq> NoErrAlreadyUpToDate"
    and "Status_result engine_conflict = Inr False"
    by (simp_all add: engine_conflict_def)
  from sync_conflict_auto_resolved[OF this]
  show ?thesis
    by (simp add: engine_conflict_def staging_or_commit_fails_def forced_push_fails_def)
qed

text \<open>
  C2 as stated fails: the pull fails, the tree is dirty, staging and commit both succeed,
  and the attempt still ends in a fatal error (the forced push is refused) and reports no
  auto-resolution.
\<close>

theorem sync_conflict_fatal_counterexample:
  "Pull_result engine_force_rejected = Some (ErrorString ''non-fast-forward update'')
   \<and> Status_result engine_force_rejected = Inr False
   \<and> Add_result engine_force_rejected = None
   \<and> Commit_result engine_force_rejected = Inr ''89abcdef01234567''
   \<and> fst (SyncWithRemote engine_force_rejected) =
       ErrMsg (Wrapped ErrFailedToPush (ErrorString ''authentication required''))"
  by (simp add: engine_force_rejected_def engine_conflict_def SyncWithRemote_def
        sync_pull_def sync_push_def Let_def)

subsection \<open>A rejected push\<close>

text \<open>
  Claim C3, as the code has it. Let the attempt reach the push stage (the pull stage ends
  with a \<open>syncMsg\<close>) and the push be rejected with an error other than "already up to
  date". Then \<^verbatim>\<open>SyncWithRemote\<close> makes exactly one forced push; if it succeeds the outcome
  is that \<open>syncMsg\<close> with \<open>Pushed\<close> set and a "force pushed" notice; if it fails the result
  is the error wrapping the forced push's error. The push stage has no other fatal
  result. It is not the only fatal condition of the protocol: the stages before the push
  have their own.
\<close>

theorem sync_forced_push:
  assumes "Getwd_result e = Inr pwd" and "PlainOpen_result e = None"
    and "Worktree_result e = None" and "Remote_result e = None"
    and "fst (sync_pull e) = Inr syncMsg"
    and "Push_result e = Some pushErr" and "pushErr \<noteq> NoErrAlreadyUpToDate"
  shows "length (filter (\<lambda>c. c = CallPush ''origin'' True) (snd (SyncWithRemote e))) = 1
    \<and> fst (SyncWithRemote e) =
        (case ForcePush_result e of
           Some forceErr \<Rightarrow> ErrMsg (Wrapped ErrFailedToPush forceErr)
         | None \<Rightarrow>
             SyncMsg (syncMsg\<lparr>Pushed := True,
                        Message := (if SyncMsg.Message syncMsg = ErrAlreadyUpToDate
                                    then ErrForcePushSuccess
                                    else SyncMsg.Message syncMsg
                                         @ '', force pushed successfully'')\<rparr>))
    \<and> is_ErrMsg (fst (sync_push e syncMsg)) = forced_push_fails e"
proof -
  note stages = SyncWithRemote_stages[OF assms(1-4)]
  have push: "sync_push e syncMsg =
      (case ForcePush_result e of
         Some forceErr \<Rightarrow> ErrMsg (Wrapped ErrFailedToPush forceErr)
       | None \<Rightarrow>
           SyncMsg (syncMsg\<lparr>Pushed := True,
                      Message := (if SyncMsg.Message syncMsg = ErrAlreadyUpToDate
                                  then ErrForcePushSuccess
                                  else SyncMsg.Message syncMsg
                                       @ '', force pushed successfully'')\<rparr>),
       [CallPrintln ''Pushing to remote...'', CallPush ''origin'' False,
        CallPrintln ''Normal push failed, trying force push...'', CallPush ''origin'' True])"
    using assms(6,7) by (simp add: sync_push_def Let_def split: option.splits)
  have a: "length (filter (\<lambda>c. c = CallPush ''origin'' True) (snd (SyncWithRemote e))) = 1"
    by (simp add: stages assms(5) push sync_pull_no_push)
  have b: "fst (SyncWithRemote e) =
        (case ForcePush_result e of
           Some forceErr \<Rightarrow> ErrMsg (Wrapped ErrFailedToPush forceErr)
         | None \<Rightarrow>
             SyncMsg (syncMsg\<lparr>Pushed := True,
                        Message := (if SyncMsg.Message syncMsg = ErrAlreadyUpToDate
                                    then ErrForcePushSuccess
                                    else SyncMsg.Message syncMsg
                                         @ '', force pushed successfully'')\<rparr>))"
    by (simp add: stages assms(5) push)
  have c: "is_ErrMsg (fst (sync_push e syncMsg)) = forced_push_fails e"
    by (rule sync_push_fatal)
  from a b c show ?thesis by blast
qed

text \<open>The theorem of C3 at the engine whose plain push is rejected.\<close>

theorem sync_forced_push_witness:
  "Push_result engine_conflict = Some (ErrorString ''non-fast-forward update'')
   \<and> length (filter (\<lambda>c. c = CallPush ''origin'' True) (snd (SyncWithRemote engine_conflict)))
       = 1
   \<and> fst (SyncWithRemote engine_conflict) =
       SyncMsg \<lparr>Success = True,
                Message = ErrConflictsDetected @ '', force pushed successfully'',
                Pulled = False, Pushed = True, Conflict = True\<rparr>"
proof -
  have "Getwd_result engine_conflict = Inr ''/work''"
    and "PlainOpen_result engine_conflict = None"
    and "Worktree_result engine_conflict = None"
    and "Remote_result engine_conflict = None"
    and "fst (sync_pull engine_conflict) =
           Inr \<lparr>Success = True, Message = ErrConflictsDetected, Pulled = False,
                Pushed = False, Conflict = True\<rparr>"
    and "Push_result engine_conflict = Some (ErrorString ''non-fast-forward update'')"
    and "ErrorString ''non-fast-forward update'' \<noteq> NoErrAlreadyUpToDate"
    by (simp_all add: engine_conflict_def sync_pull_def Let_def)
  from sync_forced_push[OF this] ErrConflictsDetected_not_up_to_date
  show ?thesis
    by (simp add: engine_conflict_def)
qed

text \<open>
  C3 as stated fails: a forced-push failure is not the only fatal condition. Here the
  staging of the conflict resolution fails; the result is an error, and no push, plain or
  forced, was made.
\<close>

theorem sync_fatal_without_push_counterexample:
  "fst (SyncWithRemote engine_staging_fails) =
     ErrMsg (Wrapped ErrFailedToAddChanges (ErrorString ''permission denied''))
   \<and> filter is_network (snd (SyncWithRemote engine_staging_fails)) = [CallPull ''origin'']"
  by (simp add: engine_staging_fails_def engine_conflict_def SyncWithRemote_def
        sync_pull_def Let_def)

text \<open>
  The fatal conditions before the push, one by one: the working directory, the
  repository or the worktree does not open; after a failed pull, the status cannot be
  read, the staging fails, or the commit fails.
\<close>

lemma sync_fatal_before_push:
  shows "Getwd_result e = Inl err \<Longrightarrow> fst (SyncWithRemote e) = ErrMsg err"
    and "Getwd_result e = Inr pwd \<Longrightarrow> PlainOpen_result e = Some err \<Longrightarrow>
         fst (SyncWithRemote e) = ErrMsg (Wrapped ErrFailedToOpenRepo err)"
    and "Getwd_result e = Inr pwd \<Longrightarrow> PlainOpen_result e = None \<Longrightarrow>
         Worktree_result e = Some err \<Longrightarrow>
         fst (SyncWithRemote e) = ErrMsg (Wrapped ErrFailedToGetWorktree err)"
    and "Getwd_result e = Inr pwd \<Longrightarrow> PlainOpen_result e = None \<Longrightarrow>
         Worktree_result e = None \<Longrightarrow> Remote_result e = None \<Longrightarrow>
         Pull_result e = Some pullErr \<Longrightarrow> pullErr \<noteq> NoErrAlreadyUpToDate \<Longrightarrow>
         Status_result e = Inl err \<Longrightarrow>
         fst (SyncWithRemote e) = ErrMsg (Wrapped ErrFailedToGetStatus err)"
    and "Getwd_result e = Inr pwd \<Longrightarrow> PlainOpen_result e = None \<Longrightarrow>
         Worktree_result e = None \<Longrightarrow> Remote_result e = None \<Longrightarrow>
         Pull_result e = Some pullErr \<Longrightarrow> pullErr \<noteq> NoErrAlreadyUpToDate \<Longrightarrow>
         Status_result e = Inr False \<Longrightarrow> Add_result e = Some err \<Longrightarrow>
         fst (SyncWithRemote e) = ErrMsg (Wrapped ErrFailedToAddChanges err)"
    and "Getwd_result e = Inr pwd \<Longrightarrow> PlainOpen_result e = None \<Longrightarrow>
         Worktree_result e = None \<Longrightarrow> Remote_result e = None \<Longrightarrow>
         Pull_result e = Some pullErr \<Longrightarrow> pullErr \<noteq> NoErrAlreadyUpToDate \<Longrightarrow>
         Status_result e = Inr False \<Longrightarrow> Add_result e = None \<Longrightarrow>
         Commit_result e = Inl err \<Longrightarrow>
         fst (SyncWithRemote e) = ErrMsg (Wrapped ErrFailedToCommit err)"
  by (simp_all add: SyncWithRemote_def sync_pull_def Let_def)

section \<open>Checkpoints, history and rollback\<close>

lemma ForEach_map:
  "ForEach currentHash commits checkpoints =
     checkpoints @ map (to_checkpoint currentHash) commits"
  by (induction commits arbitrary: checkpoints) (simp_all add: to_checkpoint_def)

lemma CreateCheckpoint_created:
  assumes "fst (CreateCheckpoint e description) = CheckpointCreatedMsg ok text"
  shows "\<exists>h pwd. Commit_result e = Inr h
          \<and> snd (CreateCheckpoint e description) =
              [CallGetwd, CallPlainOpen pwd, CallWorktree, CallAdd ''.'',
               CallCommit description
                 \<lparr>Name = CheckpointAuthorName, Email = CheckpointAuthorEmail, When = Now e\<rparr>]"
  using assms
  by (auto simp: CreateCheckpoint_def Let_def split: sum.splits option.splits)

lemma LoadCheckpoints_loaded:
  assumes "fst (LoadCheckpoints e) = CheckpointsLoadedMsg checkpoints"
  shows "\<exists>head. Head_result e = Inr head
          \<and> checkpoints = map (to_checkpoint head) (ForEach_commits e)"
  using assms
  by (auto simp: LoadCheckpoints_def ForEach_map Let_def split: sum.splits option.splits)

text \<open>
  Claim C6. Let \<^verbatim>\<open>CreateCheckpoint\<close> with the message \<open>msg\<close> succeed on the engine \<open>e\<close>,
  and let \<open>e'\<close> be the engine right afterwards, on which \<^verbatim>\<open>LoadCheckpoints\<close> returns a
  list. The engine is taken to keep its side of the round trip: whatever commit the
  Gateway asked for, if the engine answered with the hash \<open>h\<close>, then in \<open>e'\<close> the head
  is \<open>h\<close> and the log from the head starts with that commit and its message. Then the
  list is not empty, and its first entry is current and has the message \<open>msg\<close>.
\<close>

theorem checkpoint_then_history:
  assumes created: "fst (CreateCheckpoint e msg) = CheckpointCreatedMsg ok text"
    and engine: "\<And>m a h. CallCommit m a \<in> set (snd (CreateCheckpoint e msg)) \<Longrightarrow>
                   Commit_result e = Inr h \<Longrightarrow> log_starts_with h m e'"
    and loaded: "fst (LoadCheckpoints e') = CheckpointsLoadedMsg checkpoints"
  shows "\<exists>c cs. checkpoints = c # cs \<and> IsCurrent c \<and> Checkpoint.Message c = msg"
proof -
  from CreateCheckpoint_created[OF created] obtain h pwd where
    h: "Commit_result e = Inr h" and
    calls: "snd (CreateCheckpoint e msg) =
              [CallGetwd, CallPlainOpen pwd, CallWorktree, CallAdd ''.'',
               CallCommit msg
                 \<lparr>Name = CheckpointAuthorName, Email = CheckpointAuthorEmail, When = Now e\<rparr>]"
    by blast
  have "log_starts_with h msg e'"
    by (rule engine[OF _ h]) (simp add: calls)
  then obtain c cs where head: "Head_result e' = Inr h"
    and log: "ForEach_commits e' = c # cs" "CommitHash c = h" "CommitMessage c = msg"
    by (auto simp: log_starts_with_def split: list.splits)
  from LoadCheckpoints_loaded[OF loaded] head log(1)
  have "checkpoints = to_checkpoint h c # map (to_checkpoint h) cs"
    by auto
  with log(2,3) show ?thesis
    by (simp add: to_checkpoint_def)
qed

text \<open>
  The theorem of C6 at the repository with one checkpoint: the checkpoint
  \<open>''fix the parser''\<close> is created, and the history loaded next starts with it.
\<close>

theorem checkpoint_then_history_witness:
  "fst (CreateCheckpoint engine_work ''fix the parser'') =
     CheckpointCreatedMsg True (CheckpointCreatedPrefix @ ''4f2a9c0'')
   \<and> log_starts_with ''4f2a9c01d3e5b7a6c8d0e1f2a3b4c5d6e7f80912'' ''fix the parser''
        engine_after_commit
   \<and> (\<exists>c cs. fst (LoadCheckpoints engine_after_commit) = CheckpointsLoadedMsg (c # cs)
         \<and> IsCurrent c \<and> Checkpoint.Message c = ''fix the parser'')"
proof -
  have created: "fst (CreateCheckpoint engine_work ''fix the parser'') =
     CheckpointCreatedMsg True (CheckpointCreatedPrefix @ ''4f2a9c0'')"
    by (simp add: CreateCheckpoint_def engine_work_def Let_def numeral_eq_Suc byte_in_def)
  have starts: "log_starts_with ''4f2a9c01d3e5b7a6c8d0e1f2a3b4c5d6e7f80912'' ''fix the parser''
        engine_after_commit"
    by (simp add: log_starts_with_def engine_after_commit_def engine_work_def)
  have engine: "log_starts_with h m engine_after_commit"
    if "CallCommit m a \<in> set (snd (CreateCheckpoint engine_work ''fix the parser''))"
      and "Commit_result engine_work = Inr h" for m a h
    using that starts by (simp add: CreateCheckpoint_def engine_work_def Let_def)
  obtain checkpoints where
    loaded: "fst (LoadCheckpoints engine_after_commit) = CheckpointsLoadedMsg checkpoints"
    by (simp add: LoadCheckpoints_def engine_after_commit_def engine_work_def Let_def)
  from checkpoint_then_history[OF created engine loaded] loaded created starts
  show ?thesis by auto
qed

text \<open>
  Claim C8, as the code has it. \<^verbatim>\<open>RollbackToCheckpoint\<close> does not look the identifier
  up: once the repository and its worktree open, it asks the engine for a hard reset to
  the identifier, and its result follows the engine's answer. It returns a failure
  (\<open>Success\<close> false) whose text names the rewind and carries the engine's error exactly
  when the reset reports an error, and a success when it does not. Neither the history
  nor the head the engine would report has any part in the result. The reset is the only
  call it makes that changes the repository; what a rejected reset leaves of the working
  tree and the head is the engine's.
\<close>

theorem rollback_follows_reset:
  assumes "Getwd_result e = Inr pwd" and "PlainOpen_result e = None"
    and "Worktree_result e = None"
  shows "RollbackToCheckpoint e hash =
           (case Reset_result e hash of
              Some err \<Rightarrow> RollbackMsg False (RollbackFailedPrefix @ Error err)
            | None \<Rightarrow> RollbackMsg True (RollbackDonePrefix @ truncateString 7 hash),
            [CallGetwd, CallPlainOpen pwd, CallWorktree, CallReset hash HardReset])
    \<and> filter is_mutation (snd (RollbackToCheckpoint e hash)) = [CallReset hash HardReset]
    \<and> RollbackToCheckpoint (e\<lparr>ForEach_commits := history, Head_result := head\<rparr>) hash =
        RollbackToCheckpoint e hash"
  using assms
  by (simp add: RollbackToCheckpoint_def Let_def split: option.splits)

text \<open>
  The theorem of C8 at the repository with one checkpoint: an identifier that names no
  commit is rejected by the engine, and the rollback fails.
\<close>

theorem rollback_follows_reset_witness:
  "Reset_result engine_work ''ffffffffffffffffffffffffffffffffffffffff'' =
     Some (ErrorString ''object not found'')
   \<and> RollbackToCheckpoint engine_work ''ffffffffffffffffffffffffffffffffffffffff'' =
       (RollbackMsg False (RollbackFailedPrefix @ ''object not found''),
        [CallGetwd, CallPlainOpen ''/work'', CallWorktree,
         CallReset ''ffffffffffffffffffffffffffffffffffffffff'' HardReset])
   \<and> filter is_mutation
        (snd (RollbackToCheckpoint engine_work ''ffffffffffffffffffffffffffffffffffffffff'')) =
       [CallReset ''ffffffffffffffffffffffffffffffffffffffff'' HardReset]"
proof -
  have env: "Getwd_result engine_work = Inr ''/work''" "PlainOpen_result engine_work = None"
    "Worktree_result engine_work = None"
    by (simp_all add: engine_work_def)
  have reset: "Reset_result engine_work ''ffffffffffffffffffffffffffffffffffffffff'' =
      Some (ErrorString ''object not found'')"
    by (simp add: engine_work_def first_commit_def)
  from rollback_follows_reset
         [OF env, where hash = "''ffffffffffffffffffffffffffffffffffffffff''"
            and history = "[]" and head = "Inr []"] reset
  show ?thesis by simp
qed

text \<open>
  C8 as stated fails: the identifier \<open>''not-a-hash''\<close> is the hash of no commit of the
  history, and the rollback to it is reported as a success: the engine accepts the
  reset, and the Gateway has no check of its own.
\<close>

theorem rollback_not_in_history_counterexample:
  "''not-a-hash'' \<notin> CommitHash ` set (ForEach_commits engine_zero_hash)
   \<and> RollbackToCheckpoint engine_zero_hash ''not-a-hash'' =
       (RollbackMsg True (RollbackDonePrefix @ ''not-a-h''),
        [CallGetwd, CallPlainOpen ''/work'', CallWorktree,
         CallReset ''not-a-hash'' HardReset])"
  by (simp add: RollbackToCheckpoint_def engine_zero_hash_def engine_work_def first_commit_def
        Let_def numeral_eq_Suc byte_in_def)

section \<open>The Controller\<close>

subsection \<open>Lemmas\<close>

lemma handleKeyMsg_loading: "Loading m \<Longrightarrow> handleKeyMsg m key = Some (m, CmdNil)"
  by (simp add: handleKeyMsg_def)

lemma run_append:
  "run m (xs @ ys) =
    (case run m xs of
       None \<Rightarrow> None
     | Some (m', cmds) \<Rightarrow>
         (case run m' ys of None \<Rightarrow> None | Some (m'', cmds') \<Rightarrow> Some (m'', cmds @ cmds')))"
  by (induction xs arbitrary: m) (auto split: option.splits)

lemma run_keys_loading:
  "Loading m \<Longrightarrow> run m (map KeyMsg keys) = Some (m, replicate (length keys) CmdNil)"
  by (induction keys) (simp_all add: Update_def handleKeyMsg_loading)

lemma menu_items_distinct:
  "MenuCreateCheckpoint \<noteq> MenuInitGit" "MenuViewHistory \<noteq> MenuInitGit"
  "MenuViewHistory \<noteq> MenuCreateCheckpoint" "MenuRollback \<noteq> MenuInitGit"
  "MenuRollback \<noteq> MenuCreateCheckpoint" "MenuRollback \<noteq> MenuViewHistory"
  "MenuSync \<noteq> MenuInitGit" "MenuSync \<noteq> MenuCreateCheckpoint"
  "MenuSync \<noteq> MenuViewHistory" "MenuSync \<noteq> MenuRollback"
  by (simp_all add: MenuInitGit_def MenuCreateCheckpoint_def MenuViewHistory_def
        MenuRollback_def MenuSync_def)

lemma handleMenuSelection_initialized:
  assumes "\<not> GitNotInitialized m"
  shows "handleMenuSelection (m\<lparr>Selected := 0\<rparr>) =
           Some (m\<lparr>Selected := 0, Loading := True, LoadingText := LoadingTextDescription\<rparr>,
                 CmdDescriptionMode DefaultSuggestions)"
    and "handleMenuSelection (m\<lparr>Selected := 1\<rparr>) =
           Some (m\<lparr>Selected := 1, Loading := True, LoadingText := LoadingTextHistory\<rparr>,
                 CmdLoadCheckpoints)"
    and "handleMenuSelection (m\<lparr>Selected := 2\<rparr>) =
           Some (m\<lparr>Selected := 2, Loading := True, LoadingText := LoadingTextHistory\<rparr>,
                 CmdLoadCheckpoints)"
    and "handleMenuSelection (m\<lparr>Selected := 3\<rparr>) =
           Some (m\<lparr>Selected := 3, Loading := True, LoadingText := LoadingTextSync\<rparr>,
                 CmdSyncWithRemote)"
  using assms menu_items_distinct
  by (simp_all add: handleMenuSelection_def Model_GetMenuItems_def Let_def numeral_3_eq_3
        numeral_2_eq_2)

lemma clearSyncMessage_keeps:
  "Loading (clearSyncMessage m) = Loading m"
  "DescriptionMode (clearSyncMessage m) = DescriptionMode m"
  "HistoryMode (clearSyncMessage m) = HistoryMode m"
  "GitNotInitialized (clearSyncMessage m) = GitNotInitialized m"
  by (simp_all add: clearSyncMessage_def)

subsection \<open>Keys while loading\<close>

text \<open>
  Claim C4, as the code has it. While \<open>Loading\<close> is set, every key, the force-quit key
  \<^verbatim>\<open>ctrl+c\<close> included, leaves the state as it is and schedules nothing: the check of
  \<open>Loading\<close> is the first thing \<^verbatim>\<open>handleKeyMsg\<close> does. So a burst of keys during loading
  changes nothing, and the message that arrives after the burst (the completion of the
  pending operation) is processed exactly as it would have been without the burst.
\<close>

theorem loading_absorbs_every_key:
  assumes "Loading m"
  shows "handleKeyMsg m key = Some (m, CmdNil)
    \<and> run m (map KeyMsg keys) = Some (m, replicate (length keys) CmdNil)
    \<and> run m (map KeyMsg keys @ [msg]) =
        (case Update m msg of
           None \<Rightarrow> None
         | Some (m', cmd) \<Rightarrow> Some (m', replicate (length keys) CmdNil @ [cmd]))"
  using assms
  by (simp add: handleKeyMsg_loading run_append run_keys_loading split: option.splits)

text \<open>The theorem of C4 at a loading state and a burst of three keys.\<close>

theorem loading_absorbs_every_key_witness:
  "Loading m_loading
   \<and> run m_loading (map KeyMsg [key_ctrl_c, key_down, key_rune 0x68]) =
       Some (m_loading, [CmdNil, CmdNil, CmdNil])"
proof -
  have l: "Loading m_loading" by (simp add: m_loading_def)
  from loading_absorbs_every_key
         [OF l, of key_ctrl_c "[key_ctrl_c, key_down, key_rune 0x68]" OtherMsg] l
  show ?thesis by (simp add: numeral_3_eq_3)
qed

text \<open>
  C4 as stated fails: while loading, the force-quit key does not stop the loop (the
  command is \<open>CmdNil\<close>, not \<open>CmdQuit\<close>); the same key quits when nothing is loading.
\<close>

theorem loading_absorbs_force_quit_counterexample:
  "Loading m_loading
   \<and> handleKeyMsg m_loading key_ctrl_c = Some (m_loading, CmdNil)
   \<and> handleKeyMsg initial_Model key_ctrl_c = Some (initial_Model\<lparr>Quitting := True\<rparr>, CmdQuit)"
  by (simp add: handleKeyMsg_def m_loading_def key_ctrl_c_def initial_Model_def
        clearSyncMessage_def)

subsection \<open>The selection index of the menu\<close>

text \<open>
  Claim C5 at the input where the code breaks it. The repository is not initialized, so
  the menu is the single entry "initialize" and the only index within it is 0; the key
  \<^verbatim>\<open>down\<close> moves the index to 1, because the move is bounded by the package-level
  \<^verbatim>\<open>GetMenuItems()\<close> (always four entries) and not by the menu of the state. And when the
  menu shrinks (\<open>GitNotInitializedMsg\<close> arrives while the index is 3) the index is not
  clamped.
\<close>

theorem menu_index_leaves_menu:
  "Model_GetMenuItems m_uninitialized = [MenuInitGit]
   \<and> Selected m_uninitialized = 0
   \<and> handleKeyMsg m_uninitialized key_down = Some (m_uninitialized\<lparr>Selected := 1\<rparr>, CmdNil)
   \<and> Update (initial_Model\<lparr>Selected := 3\<rparr>) (GitNotInitializedMsg ''no repository'') =
       Some (initial_Model\<lparr>Selected := 3, GitNotInitialized := True,
               Err := Some (Errorf ''no repository'')\<rparr>, CmdNil)"
  by (simp add: handleKeyMsg_def Model_GetMenuItems_def GetMenuItems_def Update_def
        m_uninitialized_def initial_Model_def clearSyncMessage_def key_down_def)

subsection \<open>Hotkeys\<close>

text \<open>
  Claim C7, as the code has it. In the main menu, while nothing is loading and the
  repository is initialized, the hotkeys \<^verbatim>\<open>c\<close>, \<^verbatim>\<open>h\<close>, \<^verbatim>\<open>r\<close> and \<^verbatim>\<open>s\<close> start the
  checkpoint creation (the suggestions are requested), the history, the rollback (both
  load the checkpoints) and the synchronisation, whatever entry was selected; the
  selection moves to the entry of the action.
\<close>

theorem hotkeys_jump_when_initialized:
  assumes "\<not> Loading m" and "\<not> DescriptionMode m" and "\<not> HistoryMode m"
    and "\<not> GitNotInitialized m" and "Type key \<noteq> KeyEscape"
  shows "(String key = ''c'' \<longrightarrow>
            handleKeyMsg m key =
              Some ((clearSyncMessage m)\<lparr>Selected := 0, Loading := True,
                      LoadingText := LoadingTextDescription\<rparr>,
                    CmdDescriptionMode DefaultSuggestions))
    \<and> (String key = ''h'' \<longrightarrow>
            handleKeyMsg m key =
              Some ((clearSyncMessage m)\<lparr>Selected := 1, Loading := True,
                      LoadingText := LoadingTextHistory\<rparr>, CmdLoadCheckpoints))
    \<and> (String key = ''r'' \<longrightarrow>
            handleKeyMsg m key =
              Some ((clearSyncMessage m)\<lparr>Selected := 2, Loading := True,
                      LoadingText := LoadingTextHistory\<rparr>, CmdLoadCheckpoints))
    \<and> (String key = ''s'' \<longrightarrow>
            handleKeyMsg m key =
              Some ((clearSyncMessage m)\<lparr>Selected := 3, Loading := True,
                      LoadingText := LoadingTextSync\<rparr>, CmdSyncWithRemote))"
proof -
  have init: "\<not> GitNotInitialized (clearSyncMessage m)"
    using assms(4) by (simp add: clearSyncMessage_keeps)
  show ?thesis
    using assms(1-3,5) handleMenuSelection_initialized[OF init]
    by (simp add: handleKeyMsg_def Let_def clearSyncMessage_keeps)
qed

text \<open>The theorem of C7 at the start state with the third entry selected, keys c and s.\<close>

theorem hotkeys_jump_when_initialized_witness:
  "\<not> GitNotInitialized (initial_Model\<lparr>Selected := 2\<rparr>)
   \<and> handleKeyMsg (initial_Model\<lparr>Selected := 2\<rparr>) (key_rune 0x63) =
       Some (initial_Model\<lparr>Selected := 0, Loading := True,
               LoadingText := LoadingTextDescription\<rparr>,
             CmdDescriptionMode DefaultSuggestions)
   \<and> handleKeyMsg (initial_Model\<lparr>Selected := 2\<rparr>) (key_rune 0x73) =
       Some (initial_Model\<lparr>Selected := 3, Loading := True, LoadingText := LoadingTextSync\<rparr>,
             CmdSyncWithRemote)"
proof -
  let ?m = "initial_Model\<lparr>Selected := 2\<rparr>"
  have m: "\<not> Loading ?m" "\<not> DescriptionMode ?m" "\<not> HistoryMode ?m"
    "\<not> GitNotInitialized ?m"
    by (simp_all add: initial_Model_def)
  have c: "Type (key_rune 0x63) \<noteq> KeyEscape" "String (key_rune 0x63) = ''c''"
    and s: "Type (key_rune 0x73) \<noteq> KeyEscape" "String (key_rune 0x73) = ''s''"
    by (simp_all add: key_rune_def string_of_runes_def utf8_rune_def char_of_def)
  from hotkeys_jump_when_initialized[OF m c(1)] hotkeys_jump_when_initialized[OF m s(1)]
    c(2) s(2) m(4)
  show ?thesis
    by (simp add: clearSyncMessage_def initial_Model_def)
qed

text \<open>
  C7 as stated fails: when the repository is not initialized, the hotkey \<^verbatim>\<open>h\<close> starts
  nothing, and the hotkey \<^verbatim>\<open>c\<close> starts the initialization, not a checkpoint.
\<close>

theorem hotkeys_uninitialized_counterexample:
  "GitNotInitialized m_uninitialized
   \<and> \<not> Loading m_uninitialized
   \<and> handleKeyMsg m_uninitialized (key_rune 0x68) =
       Some (m_uninitialized\<lparr>Selected := 1\<rparr>, CmdNil)
   \<and> handleKeyMsg m_uninitialized (key_rune 0x63) =
       Some (m_uninitialized\<lparr>Loading := True, LoadingText := LoadingTextInit\<rparr>, CmdInitGit)"
  by (simp add: handleKeyMsg_def handleMenuSelection_def Model_GetMenuItems_def
        m_uninitialized_def initial_Model_def clearSyncMessage_def key_rune_def
        string_of_runes_def utf8_rune_def char_of_def Let_def)

subsection \<open>The description draft\<close>

text \<open>
  Claim C9 at the input where the code breaks it. The draft is the one character U+044F
  (two bytes in UTF-8), as typing it into the empty draft leaves it; the backspace key
  cuts one byte, not one character: the draft that is left is the single byte \<open>0xD1\<close>,
  not the empty text.
\<close>

theorem backspace_cuts_one_byte:
  "string_of_runes [0x44F] = [CHR 0xD1, CHR 0x8F]
   \<and> handleDescriptionInput m_description (key_rune 0x44F) =
       Some (m_description\<lparr>DescriptionInput := [CHR 0xD1, CHR 0x8F]\<rparr>, CmdNil)
   \<and> handleDescriptionInput (m_description\<lparr>DescriptionInput := [CHR 0xD1, CHR 0x8F]\<rparr>)
         key_backspace =
       Some (m_description\<lparr>DescriptionInput := [CHR 0xD1]\<rparr>, CmdNil)"
  by (simp add: handleDescriptionInput_def m_description_def initial_Model_def key_rune_def
        key_backspace_def string_of_runes_def utf8_rune_def char_of_def)

text \<open>
  Claim C10. In the description entry, the key of a digit \<^verbatim>\<open>1\<close> to \<^verbatim>\<open>9\<close> replaces the
  whole draft by the suggestion at that position, or, when the list of suggestions is
  too short for the position, leaves the whole state as it is; nothing is scheduled, and
  the digit is never appended to the draft.
\<close>

theorem digit_key_picks_suggestion:
  assumes "Type key = KeyRunes" and "Runes key = [r]" and "0x31 \<le> r" and "r \<le> 0x39"
  shows "handleDescriptionInput m key =
    Some (if nat (r - 0x31) < length (Suggestions m)
          then m\<lparr>DescriptionInput := Suggestions m ! nat (r - 0x31)\<rparr>
          else m, CmdNil)"
  using assms by (auto simp: handleDescriptionInput_def)

text \<open>
  The theorem of C10 at the key \<^verbatim>\<open>2\<close>: with the default suggestions it picks the second
  one; with a single suggestion it changes nothing.
\<close>

theorem digit_key_picks_suggestion_witness:
  "handleDescriptionInput m_description (key_rune 0x32) =
     Some (m_description\<lparr>DescriptionInput := Suggestion2\<rparr>, CmdNil)
   \<and> handleDescriptionInput (m_description\<lparr>Suggestions := [Suggestion1]\<rparr>) (key_rune 0x32) =
     Some (m_description\<lparr>Suggestions := [Suggestion1]\<rparr>, CmdNil)"
proof -
  have k: "Type (key_rune 0x32) = KeyRunes" "Runes (key_rune 0x32) = [0x32]"
    "(0x31::int) \<le> 0x32" "(0x32::int) \<le> 0x39"
    by (simp_all add: key_rune_def)
  from digit_key_picks_suggestion[OF k, of m_description]
    digit_key_picks_suggestion[OF k, of "m_description\<lparr>Suggestions := [Suggestion1]\<rparr>"]
  show ?thesis
    by (simp add: m_description_def DefaultSuggestions_def)
qed

section \<open>Further properties of the Controller\<close>

subsection \<open>The indices stay in range and no handler panics\<close>

lemma handleMenuSelection_ok:
  assumes "index_ok m"
  shows "\<exists>m' cmd. handleMenuSelection m = Some (m', cmd) \<and> index_ok m'"
  using assms
  by (auto simp: handleMenuSelection_def Let_def index_ok_def)

lemma handleDescriptionInput_ok:
  assumes "index_ok m" and "well_formed (KeyMsg key)"
  shows "\<exists>m' cmd. handleDescriptionInput m key = Some (m', cmd) \<and> index_ok m'"
  using assms
  by (cases "Runes key")
     (auto simp: handleDescriptionInput_def Let_def index_ok_def split: KeyType.splits)

lemma handleHistoryInput_ok:
  assumes "index_ok m"
  shows "\<exists>m' cmd. handleHistoryInput m key = Some (m', cmd) \<and> index_ok m'"
  using assms
  by (auto simp: handleHistoryInput_def Let_def index_ok_def)

lemma clearSyncMessage_ok: "index_ok m \<Longrightarrow> index_ok (clearSyncMessage m)"
  by (simp add: clearSyncMessage_def index_ok_def)

lemma handleKeyMsg_ok:
  assumes "index_ok m" and "well_formed (KeyMsg key)"
  shows "\<exists>m' cmd. handleKeyMsg m key = Some (m', cmd) \<and> index_ok m'"
proof -
  let ?m = "clearSyncMessage m"
  have ok: "index_ok ?m" using assms(1) by (rule clearSyncMessage_ok)
  have sel: "index_ok (?m\<lparr>Selected := 0\<rparr>)" "index_ok (?m\<lparr>Selected := 1\<rparr>)"
    "index_ok (?m\<lparr>Selected := 2\<rparr>)" "index_ok (?m\<lparr>Selected := 3\<rparr>)"
    using ok by (simp_all add: index_ok_def GetMenuItems_def)
  have up: "index_ok (?m\<lparr>Selected := Selected ?m - 1\<rparr>)" if "Selected ?m > 0"
    using ok that by (simp add: index_ok_def)
  have down: "index_ok (?m\<lparr>Selected := Selected ?m + 1\<rparr>)"
    if "Selected ?m < int (length GetMenuItems) - 1"
    using ok that by (simp add: index_ok_def)
  have quit: "index_ok (?m\<lparr>Quitting := True\<rparr>)"
    using ok by (simp add: index_ok_def)
  show ?thesis
    using assms ok up down quit
      handleDescriptionInput_ok[OF ok assms(2)] handleHistoryInput_ok[OF ok, of key]
      handleMenuSelection_ok[OF ok] handleMenuSelection_ok[OF sel(1)]
      handleMenuSelection_ok[OF sel(2)] handleMenuSelection_ok[OF sel(3)]
      handleMenuSelection_ok[OF sel(4)]
    by (simp add: handleKeyMsg_def Let_def)
qed

text \<open>
  What does hold of the indices of C5: from a state whose indices are in range, every
  message is handled without a panic and leaves the menu index within the full menu of
  four entries and the history index within the loaded list (0 for the empty list); a
  new list resets the history index to 0.
\<close>

lemma Update_keeps_indices:
  assumes "index_ok m" and "well_formed msg"
  shows "\<exists>m' cmd. Update m msg = Some (m', cmd) \<and> index_ok m'"
proof (cases msg)
  case (KeyMsg key)
  with assms handleKeyMsg_ok[of m key] show ?thesis
    by (simp add: Update_def)
next
  case (CheckpointsLoadedMsg cps)
  with assms show ?thesis
    by (cases cps) (simp_all add: Update_def index_ok_def)
qed (use assms in \<open>auto simp: Update_def index_ok_def\<close>)

lemma run_keeps_indices:
  assumes "index_ok m" and "list_all well_formed msgs"
  shows "\<exists>m' cmds. run m msgs = Some (m', cmds) \<and> index_ok m'"
  using assms
proof (induction msgs arbitrary: m)
  case Nil
  then show ?case by simp
next
  case (Cons msg msgs)
  from Cons.prems Update_keeps_indices[of m msg] obtain m1 cmd where
    step: "Update m msg = Some (m1, cmd)" and ok: "index_ok m1"
    by auto
  from Cons.IH[OF ok] Cons.prems(2) obtain m2 cmds where
    "run m1 msgs = Some (m2, cmds)" and "index_ok m2"
    by auto
  with step show ?case by simp
qed

lemma initial_Model_index_ok: "index_ok initial_Model"
  by (simp add: index_ok_def initial_Model_def GetMenuItems_def)

subsection \<open>Leaving the history\<close>

text \<open>
  The second half of C9: in the history, while nothing is loading, the backspace key
  (like the escape key) goes back to the main menu and schedules nothing.
\<close>

lemma history_backspace_goes_back:
  assumes "\<not> Loading m" and "\<not> DescriptionMode m" and "HistoryMode m"
    and "Type key = KeyBackspace \<or> Type key = KeyEscape"
  shows "handleKeyMsg m key = Some ((clearSyncMessage m)\<lparr>HistoryMode := False\<rparr>, CmdNil)"
  using assms
  by (auto simp: handleKeyMsg_def handleHistoryInput_def clearSyncMessage_keeps Let_def)

text \<open>
  The backspace key in the description entry removes the last byte of a draft that is
  not empty: the last character only when that character is a single byte.
\<close>

lemma description_backspace_butlast:
  assumes "Type key = KeyBackspace" and "Runes key = []"
  shows "handleDescriptionInput m key =
           Some (m\<lparr>DescriptionInput := butlast (DescriptionInput m)\<rparr>, CmdNil)"
  using assms by (simp add: handleDescriptionInput_def butlast_conv_take)

subsection \<open>A suggestion picked and confirmed\<close>

text \<open>
  In the description entry, the key \<^verbatim>\<open>2\<close> and then the enter key schedule the creation of
  a checkpoint whose message is the second suggestion (the default text when that
  suggestion is empty), and \<^verbatim>\<open>CreateCheckpoint\<close> asks the engine to commit that message.
\<close>

lemma digit_then_enter:
  assumes "\<not> Loading m" and "DescriptionMode m" and "Suggestions m = s1 # s2 # rest"
  shows "\<exists>m'. run m [KeyMsg (key_rune 0x32), KeyMsg key_enter] =
           Some (m', [CmdNil,
                      CmdCreateCheckpoint (if s2 = [] then DefaultDescription else s2)])"
  using assms
  by (simp add: Update_def handleKeyMsg_def handleDescriptionInput_def clearSyncMessage_def
        key_rune_def key_enter_def Let_def)

lemma CreateCheckpoint_commits_description:
  assumes "fst (CreateCheckpoint e description) = CheckpointCreatedMsg ok text"
  shows "\<exists>author. CallCommit description author \<in> set (snd (CreateCheckpoint e description))
          \<and> Name author = CheckpointAuthorName"
  using CreateCheckpoint_created[OF assms] by auto

end
